theory Spec2Isabelle
  imports Main
begin

section \<open>Python values, exceptions and strings\<close>

text \<open>
  The repository is Python. A \<open>str\<close> is modelled by its UTF-8 encoding, one \<open>char\<close>
  per byte: concatenation, equality, substring search, \<open>replace\<close> and \<open>split\<close> on an
  ASCII separator agree on both views, because no UTF-8 encoding of a code point occurs
  inside the encoding of another. The values that travel as tool arguments and as decoded
  JSON bodies are the type \<open>json\<close>; a dict is an association list in insertion order, read
  through \<open>map_of\<close> (keys are distinct in every dict Python can build). JSON floats are not
  modelled: none of the fields the handlers read is one.

  A raised exception is a value \<open>Exc cls msg\<close>, where \<open>msg\<close> is what \<open>str(e)\<close> gives
  (CPython 3.11 wording); a computation that may raise has the type \<open>pyexc + 'a\<close>.
\<close>

datatype json = JNull | JBool bool | JInt int | JStr string
  | JList "json list" | JObj "(string \<times> json) list"

datatype pyexc = Exc (exc_class: string) (exc_str: string)

definition exc_bind :: "pyexc + 'a \<Rightarrow> ('a \<Rightarrow> pyexc + 'b) \<Rightarrow> pyexc + 'b" where
  "exc_bind m f = (case m of Inl e \<Rightarrow> Inl e | Inr x \<Rightarrow> f x)"

text \<open>The marker and the other non-ASCII characters of the message texts, in UTF-8.\<close>

definition cross :: string where
  "cross = [CHR 0xE2, CHR 0x9D, CHR 0x8C]"

definition star :: string where
  "star = [CHR 0xE2, CHR 0xAD, CHR 0x90]"

definition trident :: string where
  "trident = [CHR 0xF0, CHR 0x9F, CHR 0x94, CHR 0xB1]"

definition check_mark :: string where
  "check_mark = [CHR 0xE2, CHR 0x9C, CHR 0x85]"

definition lock :: string where
  "lock = [CHR 0xF0, CHR 0x9F, CHR 0x94, CHR 0x92]"

definition construction :: string where
  "construction = [CHR 0xF0, CHR 0x9F, CHR 0x9A, CHR 0xA7]"

definition memo :: string where
  "memo = [CHR 0xF0, CHR 0x9F, CHR 0x93, CHR 0x9D]"

definition arrow :: string where
  "arrow = [CHR 0xE2, CHR 0x86, CHR 0x92]"

definition nl :: string where
  "nl = [CHR 0x0A]"

text \<open>Truth value of an object, as \<open>if x\<close> and \<open>not x\<close> read it.\<close>

fun truthy :: "json \<Rightarrow> bool" where
  "truthy JNull = False"
| "truthy (JBool b) = b"
| "truthy (JInt i) = (i \<noteq> 0)"
| "truthy (JStr s) = (s \<noteq> [])"
| "truthy (JList xs) = (xs \<noteq> [])"
| "truthy (JObj m) = (m \<noteq> [])"

fun type_name :: "json \<Rightarrow> string" where
  "type_name JNull = ''NoneType''"
| "type_name (JBool b) = ''bool''"
| "type_name (JInt i) = ''int''"
| "type_name (JStr s) = ''str''"
| "type_name (JList xs) = ''list''"
| "type_name (JObj m) = ''dict''"

definition no_attribute :: "json \<Rightarrow> string \<Rightarrow> pyexc" where
  "no_attribute v a =
     Exc ''AttributeError''
       ([CHR 0x27] @ type_name v @ [CHR 0x27] @ '' object has no attribute ''
          @ [CHR 0x27] @ a @ [CHR 0x27])"

subsection \<open>Strings\<close>

text \<open>\<open>s.split(c)\<close> for a one-character separator: one more part than separators.\<close>

fun split_on :: "char \<Rightarrow> string \<Rightarrow> string list" where
  "split_on c [] = [[]]"
| "split_on c (x # xs) =
     (if x = c then [] # split_on c xs
      else (case split_on c xs of [] \<Rightarrow> [[x]] | p # ps \<Rightarrow> (x # p) # ps))"

text \<open>\<open>sep.join(parts)\<close> on strings.\<close>

fun join_str :: "string \<Rightarrow> string list \<Rightarrow> string" where
  "join_str sep [] = []"
| "join_str sep [p] = p"
| "join_str sep (p # q # ps) = p @ sep @ join_str sep (q # ps)"

text \<open>\<open>sub in s\<close> on strings.\<close>

fun contains :: "string \<Rightarrow> string \<Rightarrow> bool" where
  "contains sub [] = (sub = [])"
| "contains sub (c # cs) = (take (length sub) (c # cs) = sub \<or> contains sub cs)"

text \<open>
  \<open>s.replace(old, new)\<close> for a non-empty \<open>old\<close>: the occurrences are taken from the left
  and do not overlap.
\<close>

function replace_str :: "string \<Rightarrow> string \<Rightarrow> string \<Rightarrow> string" where
  "replace_str old new [] = []"
| "replace_str old new (c # cs) =
     (if old \<noteq> [] \<and> take (length old) (c # cs) = old
      then new @ replace_str old new (drop (length old) (c # cs))
      else c # replace_str old new cs)"
  by pat_completeness auto
termination
  by (relation "measure (\<lambda>(old, new, s). length s)") auto

text \<open>
  \<open>s.lower()\<close>. Its result is only ever compared with the ASCII command words, so the
  model lowers the characters whose lower case is an ASCII letter (\<open>A\<close> to \<open>Z\<close>, and the
  Kelvin sign U+212A, which lowers to \<open>k\<close>) and leaves every other byte as it is.
\<close>

definition lower_ascii :: "char \<Rightarrow> char" where
  "lower_ascii c =
     (case map_of (zip ''ABCDEFGHIJKLMNOPQRSTUVWXYZ'' ''abcdefghijklmnopqrstuvwxyz'') c of
        Some l \<Rightarrow> l
      | None \<Rightarrow> c)"

fun py_lower :: "string \<Rightarrow> string" where
  "py_lower [] = []"
| "py_lower (c # cs) =
     (if take 3 (c # cs) = [CHR 0xE2, CHR 0x84, CHR 0xAA] then CHR ''k'' # py_lower (drop 2 cs)
      else lower_ascii c # py_lower cs)"

text \<open>
  White space as \<open>str.split()\<close> and \<open>str.strip()\<close> see it, on ASCII: the characters
  9 to 13, 28 to 31 and the space. (The white space beyond ASCII is not modelled.)
\<close>

definition is_space :: "char \<Rightarrow> bool" where
  "is_space c = (let n = (of_char c :: nat) in (9 \<le> n \<and> n \<le> 13) \<or> (28 \<le> n \<and> n \<le> 32))"

definition py_strip :: "string \<Rightarrow> string" where
  "py_strip s = rev (dropWhile is_space (rev (dropWhile is_space s)))"

text \<open>\<open>s.split()\<close>: the maximal runs of characters that are not white space.\<close>

fun str_split_acc :: "string \<Rightarrow> string \<Rightarrow> string list" where
  "str_split_acc word [] = (if word = [] then [] else [word])"
| "str_split_acc word (c # cs) =
     (if is_space c then (if word = [] then str_split_acc [] cs else word # str_split_acc [] cs)
      else str_split_acc (word @ [c]) cs)"

definition str_split :: "string \<Rightarrow> string list" where
  "str_split s = str_split_acc [] s"

text \<open>Decimal numerals, as \<open>str(n)\<close> prints an \<open>int\<close>.\<close>

function str_of_nat :: "nat \<Rightarrow> string" where
  "str_of_nat n =
     (if n < 10 then [''0123456789'' ! n]
      else str_of_nat (n div 10) @ [''0123456789'' ! (n mod 10)])"
  by pat_completeness auto
termination
  by (relation "measure id") auto

definition str_of_int :: "int \<Rightarrow> string" where
  "str_of_int i = (if i < 0 then CHR ''-'' # str_of_nat (nat (- i)) else str_of_nat (nat i))"

text \<open>
  The code points of a string, each as a one-character string: what iterating over a
  \<open>str\<close> yields. The lead byte of a UTF-8 sequence gives its length.
\<close>

definition utf8_len :: "char \<Rightarrow> nat" where
  "utf8_len c = (let n = (of_char c :: nat) in
     if n < 0xC0 then 1 else if n < 0xE0 then 2 else if n < 0xF0 then 3 else 4)"

function utf8_chars :: "string \<Rightarrow> string list" where
  "utf8_chars [] = []"
| "utf8_chars (c # cs) = take (utf8_len c) (c # cs) # utf8_chars (drop (utf8_len c) (c # cs))"
  by pat_completeness auto
termination
  by (relation "measure length") (auto simp: utf8_len_def Let_def)

text \<open>
  \<open>repr(s)\<close> of a string: single quotes unless the string has a single quote and no double
  quote; the quote, the backslash and the ASCII control characters are escaped. (The
  escapes of unprintable characters beyond ASCII are not modelled.)
\<close>

definition hex_digit :: "nat \<Rightarrow> char" where
  "hex_digit n = ''0123456789abcdef'' ! n"

definition repr_char :: "char \<Rightarrow> char \<Rightarrow> string" where
  "repr_char q c =
     (let n = (of_char c :: nat) in
      if c = q \<or> c = CHR 0x5C then [CHR 0x5C, c]
      else if n = 10 then [CHR 0x5C, CHR ''n'']
      else if n = 13 then [CHR 0x5C, CHR ''r'']
      else if n = 9 then [CHR 0x5C, CHR ''t'']
      else if n < 32 \<or> n = 127
           then [CHR 0x5C, CHR ''x'', hex_digit (n div 16), hex_digit (n mod 16)]
      else [c])"

definition repr_str :: "string \<Rightarrow> string" where
  "repr_str s =
     (let q = (if CHR 0x27 \<in> set s \<and> CHR 0x22 \<notin> set s then CHR 0x22 else CHR 0x27)
      in [q] @ concat (map (repr_char q) s) @ [q])"

text \<open>\<open>repr(v)\<close> and \<open>str(v)\<close>; an f-string field \<open>{v}\<close> is \<open>str(v)\<close>.\<close>

fun py_repr :: "json \<Rightarrow> string" and py_repr_items :: "json list \<Rightarrow> string list"
  and py_repr_pairs :: "(string \<times> json) list \<Rightarrow> string list" where
  "py_repr JNull = ''None''"
| "py_repr (JBool b) = (if b then ''True'' else ''False'')"
| "py_repr (JInt i) = str_of_int i"
| "py_repr (JStr s) = repr_str s"
| "py_repr (JList xs) = ''['' @ join_str '', '' (py_repr_items xs) @ '']''"
| "py_repr (JObj m) = ''{'' @ join_str '', '' (py_repr_pairs m) @ ''}''"
| "py_repr_items [] = []"
| "py_repr_items (x # xs) = py_repr x # py_repr_items xs"
| "py_repr_pairs [] = []"
| "py_repr_pairs ((k, v) # m) = (repr_str k @ '': '' @ py_repr v) # py_repr_pairs m"

definition py_str :: "json \<Rightarrow> string" where
  "py_str v = (case v of JStr s \<Rightarrow> s | _ \<Rightarrow> py_repr v)"

text \<open>\<open>a or b\<close> on objects.\<close>

definition py_or :: "json \<Rightarrow> json \<Rightarrow> json" where
  "py_or a b = (if truthy a then a else b)"

subsection \<open>Dicts, subscripts and iteration\<close>

definition dict_set :: "(string \<times> json) list \<Rightarrow> string \<Rightarrow> json \<Rightarrow> (string \<times> json) list" where
  "dict_set m k v = (if k \<in> fst ` set m then map (\<lambda>(k', v'). if k' = k then (k', v) else (k', v')) m
                     else m @ [(k, v)])"

text \<open>\<open>v.get(k, d)\<close>; \<open>v.get(k)\<close> is \<open>v.get(k, None)\<close>.\<close>

definition py_get :: "json \<Rightarrow> string \<Rightarrow> json \<Rightarrow> pyexc + json" where
  "py_get v k d =
     (case v of
        JObj m \<Rightarrow> (case map_of m k of None \<Rightarrow> Inr d | Some x \<Rightarrow> Inr x)
      | _ \<Rightarrow> Inl (no_attribute v ''get''))"

text \<open>\<open>v[k]\<close> for a string key.\<close>

definition py_item :: "json \<Rightarrow> string \<Rightarrow> pyexc + json" where
  "py_item v k =
     (case v of
        JObj m \<Rightarrow> (case map_of m k of None \<Rightarrow> Inl (Exc ''KeyError'' (repr_str k)) | Some x \<Rightarrow> Inr x)
      | JList xs \<Rightarrow> Inl (Exc ''TypeError'' ''list indices must be integers or slices, not str'')
      | JStr s \<Rightarrow> Inl (Exc ''TypeError'' (''string indices must be integers, not ''
                        @ [CHR 0x27] @ ''str'' @ [CHR 0x27]))
      | _ \<Rightarrow> Inl (Exc ''TypeError''
                 ([CHR 0x27] @ type_name v @ [CHR 0x27] @ '' object is not subscriptable'')))"

text \<open>\<open>k in v\<close> for a string \<open>k\<close>: a key of a dict, an element of a list, a substring of a string.\<close>

definition py_in :: "string \<Rightarrow> json \<Rightarrow> pyexc + bool" where
  "py_in k v =
     (case v of
        JObj m \<Rightarrow> Inr (map_of m k \<noteq> None)
      | JList xs \<Rightarrow> Inr (JStr k \<in> set xs)
      | JStr s \<Rightarrow> Inr (contains k s)
      | _ \<Rightarrow> Inl (Exc ''TypeError''
                 (''argument of type '' @ [CHR 0x27] @ type_name v @ [CHR 0x27]
                    @ '' is not iterable'')))"

text \<open>The elements \<open>for x in v\<close> runs over: a dict yields its keys, a string its characters.\<close>

definition py_iter :: "json \<Rightarrow> pyexc + json list" where
  "py_iter v =
     (case v of
        JList xs \<Rightarrow> Inr xs
      | JObj m \<Rightarrow> Inr (map (\<lambda>(k, x). JStr k) m)
      | JStr s \<Rightarrow> Inr (map JStr (utf8_chars s))
      | _ \<Rightarrow> Inl (Exc ''TypeError''
                 ([CHR 0x27] @ type_name v @ [CHR 0x27] @ '' object is not iterable'')))"

text \<open>\<open>v[:7]\<close>.\<close>

definition py_take7 :: "json \<Rightarrow> pyexc + json" where
  "py_take7 v =
     (case v of
        JStr s \<Rightarrow> Inr (JStr (concat (take 7 (utf8_chars s))))
      | JList xs \<Rightarrow> Inr (JList (take 7 xs))
      | JObj m \<Rightarrow> Inl (Exc ''TypeError'' (''unhashable type: '' @ [CHR 0x27] @ ''slice'' @ [CHR 0x27]))
      | _ \<Rightarrow> Inl (Exc ''TypeError''
                 ([CHR 0x27] @ type_name v @ [CHR 0x27] @ '' object is not subscriptable'')))"

text \<open>\<open>sep.join(xs)\<close> on a list of objects: every one must be a \<open>str\<close>.\<close>

fun join_json_from :: "nat \<Rightarrow> json list \<Rightarrow> pyexc + string list" where
  "join_json_from i [] = Inr []"
| "join_json_from i (x # xs) =
     (case x of
        JStr s \<Rightarrow> exc_bind (join_json_from (Suc i) xs) (\<lambda>ss. Inr (s # ss))
      | _ \<Rightarrow> Inl (Exc ''TypeError'' (''sequence item '' @ str_of_nat i
                    @ '': expected str instance, '' @ type_name x @ '' found'')))"

definition py_join :: "string \<Rightarrow> json list \<Rightarrow> pyexc + string" where
  "py_join sep xs = exc_bind (join_json_from 0 xs) (\<lambda>ss. Inr (join_str sep ss))"

section \<open>The tool server (git_mcp2/mcp_server.py)\<close>

subsection \<open>Repository references and argument unwrapping\<close>

text \<open>
  \<open>_parse_repo_string\<close>. The handlers pass it \<open>arguments.get("repo")\<close>, which is any object:
  a false one gives \<open>(None, None)\<close>, a true one that is not a string has no \<open>split\<close>.
\<close>

definition parse_repo_string :: "json \<Rightarrow> pyexc + (string option \<times> string option)" where
  "parse_repo_string repo_str =
     (if \<not> truthy repo_str then Inr (None, None)
      else (case repo_str of
              JStr s \<Rightarrow>
                (let parts = split_on CHR ''/'' s in
                 if length parts = 2 then Inr (Some (parts ! 0), Some (parts ! 1))
                 else Inr (None, Some s))
            | _ \<Rightarrow> Inl (no_attribute repo_str ''split'')))"

text \<open>\<open>not owner\<close> for an optional string.\<close>

definition falsy_opt :: "string option \<Rightarrow> bool" where
  "falsy_opt x = (x = None \<or> x = Some [])"

text \<open>\<open>_extract_arguments\<close>, on the \<open>dict | None\<close> the protocol layer hands over.\<close>

definition extract_arguments :: "(string \<times> json) list option \<Rightarrow> json" where
  "extract_arguments arguments =
     (case arguments of
        None \<Rightarrow> JObj []
      | Some m \<Rightarrow>
          if m = [] then JObj []
          else (case map_of m ''arguments'' of
                  Some inner \<Rightarrow> inner
                | None \<Rightarrow> JObj m))"

subsection \<open>The network, the configuration and the results\<close>

text \<open>
  The handlers talk to the remote API through \<open>httpx\<close>. An outbound call is a \<open>request\<close>;
  the remote side is a parameter, \<open>network\<close>, which answers a request, given the calls
  made before it, with a response or with the exception the transport raises. What
  \<open>response.json()\<close> gives, or raises, is a field of the response. The process-wide token
  is \<open>GITHUB_TOKEN\<close>. The two base64 functions of the standard library that the file
  tools use are parameters too: \<open>b64encode\<close> stands for
  \<open>base64.b64encode(s.encode()).decode()\<close>, \<open>b64decode_utf8\<close> for
  \<open>base64.b64decode(v).decode("utf-8")\<close>.
\<close>

record request =
  req_method :: string
  req_url :: string
  req_headers :: "(string \<times> string) list"
  req_params :: "(string \<times> json) list option"
  req_json :: "json option"

record response =
  status_code :: int
  resp_json :: "pyexc + json"

record env =
  GITHUB_TOKEN :: "string option"
  network :: "request list \<Rightarrow> request \<Rightarrow> pyexc + response"
  b64encode :: "string \<Rightarrow> string"
  b64decode_utf8 :: "json \<Rightarrow> pyexc + string"

datatype content = TextContent (content_text: string)

text \<open>
  What a handler does: it returns a list of text segments or raises, and it has issued
  some outbound calls, listed in order.
\<close>

type_synonym outcome = "(pyexc + content list) \<times> request list"

definition api :: string where
  "api = ''https://api.github.com''"

text \<open>\<open>_get_headers\<close>.\<close>

definition get_headers :: "env \<Rightarrow> (string \<times> string) list" where
  "get_headers env =
     (let headers = [(''Accept'', ''application/vnd.github.v3+json'')] in
      case GITHUB_TOKEN env of
        Some token \<Rightarrow> if token \<noteq> [] then headers @ [(''Authorization'', ''token '' @ token)]
                      else headers
      | None \<Rightarrow> headers)"

text \<open>A handler returning before its \<open>try\<close>, and one raising there: no call was made.\<close>

definition ret :: "content list \<Rightarrow> outcome" where
  "ret out = (Inr out, [])"

definition pre :: "pyexc + 'a \<Rightarrow> ('a \<Rightarrow> outcome) \<Rightarrow> outcome" where
  "pre m f = (case m of Inl e \<Rightarrow> (Inl e, []) | Inr x \<Rightarrow> f x)"

text \<open>
  The first \<open>arguments.get(...)\<close> of a handler raises when the arguments are not a dict;
  after it they are one, and \<open>dget\<close> is \<open>arguments.get(k, d)\<close> on it.
\<close>

definition with_dict :: "json \<Rightarrow> ((string \<times> json) list \<Rightarrow> outcome) \<Rightarrow> outcome" where
  "with_dict arguments f =
     (case arguments of JObj m \<Rightarrow> f m | _ \<Rightarrow> (Inl (no_attribute arguments ''get''), []))"

definition dget :: "(string \<times> json) list \<Rightarrow> string \<Rightarrow> json \<Rightarrow> json" where
  "dget m k d = (case map_of m k of None \<Rightarrow> d | Some v \<Rightarrow> v)"

text \<open>\<open>if arguments.get(k): target[k'] = arguments[k]\<close>.\<close>

definition copy_if_set ::
  "(string \<times> json) list \<Rightarrow> string \<Rightarrow> string \<Rightarrow> (string \<times> json) list \<Rightarrow> (string \<times> json) list" where
  "copy_if_set m k k' target =
     (if truthy (dget m k JNull) then dict_set target k' (dget m k JNull) else target)"

text \<open>
  \<open>owner, repo_name = _parse_repo_string(arguments.get("repo"))\<close> followed by
  \<open>if not owner or not repo_name: return [... Invalid repo format ...]\<close>.
\<close>

definition invalid_repo :: "content list" where
  "invalid_repo = [TextContent (cross @ '' Invalid repo format. Use '' @ [CHR 0x27] @ ''owner/repo'' @ [CHR 0x27])]"

definition with_repo :: "(string \<times> json) list \<Rightarrow> (string \<Rightarrow> string \<Rightarrow> outcome) \<Rightarrow> outcome" where
  "with_repo m f =
     pre (parse_repo_string (dget m ''repo'' JNull)) (\<lambda>(owner, repo_name).
       if falsy_opt owner \<or> falsy_opt repo_name then ret invalid_repo
       else (case (owner, repo_name) of
               (Some ow, Some rn) \<Rightarrow> f ow rn
             | _ \<Rightarrow> ret invalid_repo))"

text \<open>\<open>except Exception as e: return [TextContent(text=f"(marker) {str(e)}")]\<close>.\<close>

definition guard :: "pyexc + content list \<Rightarrow> content list" where
  "guard r = (case r of Inl e \<Rightarrow> [TextContent (cross @ '' '' @ exc_str e)] | Inr out \<Rightarrow> out)"

text \<open>
  A \<open>try\<close> block that makes one call and works on the response: the call is issued, and
  whatever is raised by it or after it is turned into an error text.
\<close>

definition one_call :: "env \<Rightarrow> request \<Rightarrow> (response \<Rightarrow> pyexc + content list) \<Rightarrow> outcome" where
  "one_call env req k = (Inr (guard (exc_bind (network env [] req) k)), [req])"

text \<open>
  The lines every handler has for a failure status:
  \<open>error = response.json().get("message", default)\<close> and the error text made of it.
\<close>

definition failure_text :: "response \<Rightarrow> string \<Rightarrow> pyexc + content list" where
  "failure_text r dflt =
     exc_bind (resp_json r) (\<lambda>j.
     exc_bind (py_get j ''message'' (JStr dflt)) (\<lambda>error.
       Inr [TextContent (cross @ '' '' @ py_str error)]))"

text \<open>
  f-strings: the pieces are evaluated from the left, and the first one that raises ends
  the evaluation. \<open>item_str v k\<close> is the field \<open>{v[k]}\<close>, \<open>get_str v k d\<close> the field
  \<open>{v.get(k, d)}\<close>, \<open>get_or_str v k alt\<close> the field \<open>{v.get(k) or alt}\<close>.
\<close>

fun fmt :: "(pyexc + string) list \<Rightarrow> pyexc + string" where
  "fmt [] = Inr []"
| "fmt (p # ps) = exc_bind p (\<lambda>s. exc_bind (fmt ps) (\<lambda>r. Inr (s @ r)))"

definition item_str :: "json \<Rightarrow> string \<Rightarrow> pyexc + string" where
  "item_str v k = exc_bind (py_item v k) (\<lambda>x. Inr (py_str x))"

definition item2_str :: "json \<Rightarrow> string \<Rightarrow> string \<Rightarrow> pyexc + string" where
  "item2_str v k k' = exc_bind (py_item v k) (\<lambda>x. item_str x k')"

definition get_str :: "json \<Rightarrow> string \<Rightarrow> json \<Rightarrow> pyexc + string" where
  "get_str v k d = exc_bind (py_get v k d) (\<lambda>x. Inr (py_str x))"

definition get_or_str :: "json \<Rightarrow> string \<Rightarrow> string \<Rightarrow> pyexc + string" where
  "get_or_str v k alt = exc_bind (py_get v k JNull) (\<lambda>x. Inr (py_str (py_or x (JStr alt))))"

text \<open>\<open>results = []; for x in xs: results.append(f(x))\<close>.\<close>

fun for_each :: "(json \<Rightarrow> pyexc + string) \<Rightarrow> json list \<Rightarrow> string list \<Rightarrow> pyexc + string list" where
  "for_each f [] results = Inr results"
| "for_each f (x # xs) results = exc_bind (f x) (\<lambda>s. for_each f xs (results @ [s]))"

definition token_required :: "content list" where
  "token_required = [TextContent (cross @ '' GitHub token required for this operation'')]"

definition mk_request ::
  "string \<Rightarrow> string \<Rightarrow> env \<Rightarrow> (string \<times> json) list option \<Rightarrow> json option \<Rightarrow> request" where
  "mk_request meth url env params body =
     \<lparr>req_method = meth, req_url = url, req_headers = get_headers env,
      req_params = params, req_json = body\<rparr>"

text \<open>The end of a listing handler: one line or block for each element, joined.\<close>

definition render_list :: "json \<Rightarrow> (json \<Rightarrow> pyexc + string) \<Rightarrow> string \<Rightarrow> pyexc + content list" where
  "render_list data f sep =
     exc_bind (py_iter data) (\<lambda>xs.
     exc_bind (for_each f xs []) (\<lambda>results.
       Inr [TextContent (join_str sep results)]))"

subsection \<open>Repository tools\<close>

definition repo_line :: "json \<Rightarrow> pyexc + string" where
  "repo_line repo =
     fmt [item_str repo ''full_name'', Inr '' ('',
          get_str repo ''visibility'' (JStr ''public''), Inr '') - '',
          Inr (star @ '' ''), get_str repo ''stargazers_count'' (JInt 0), Inr '' - '',
          get_or_str repo ''description'' ''No description'']"

definition list_repositories :: "env \<Rightarrow> string \<Rightarrow> json \<Rightarrow> outcome" where
  "list_repositories env name arguments =
     with_dict arguments (\<lambda>m.
       let username = dget m ''username'' JNull in
       if \<not> truthy username then ret [TextContent (cross @ '' Missing username parameter'')]
       else
         one_call env
           (mk_request ''GET'' (api @ ''/users/'' @ py_str username @ ''/repos'') env
              (Some [(''per_page'', JInt 100)]) None)
           (\<lambda>response.
              if status_code response \<noteq> 200
              then failure_text response (''Error: '' @ str_of_int (status_code response))
              else
                exc_bind (resp_json response) (\<lambda>data.
                  if \<not> truthy data then Inr [TextContent ''No repositories found'']
                  else render_list data repo_line (nl @ nl))))"

definition repo_details :: "json \<Rightarrow> pyexc + string" where
  "repo_details data =
     fmt [Inr ''Repository: '', get_str data ''full_name'' JNull,
          Inr (nl @ ''Description: ''), get_or_str data ''description'' ''No description'',
          Inr (nl @ ''Private: ''), get_str data ''private'' JNull,
          Inr (nl @ ''URL: ''), get_str data ''html_url'' JNull,
          Inr (nl @ ''Stars: '' @ star @ '' ''), get_str data ''stargazers_count'' JNull,
          Inr (nl @ ''Forks: '' @ trident @ '' ''), get_str data ''forks_count'' JNull,
          Inr (nl @ ''Open Issues: ''), get_str data ''open_issues_count'' JNull,
          Inr (nl @ ''Language: ''), get_or_str data ''language'' ''N/A'',
          Inr (nl @ ''Created: ''), get_str data ''created_at'' JNull,
          Inr (nl @ ''Updated: ''), get_str data ''updated_at'' JNull,
          Inr (nl @ ''Default Branch: ''), get_str data ''default_branch'' JNull]"

definition get_repo_details :: "env \<Rightarrow> string \<Rightarrow> json \<Rightarrow> outcome" where
  "get_repo_details env name arguments =
     with_dict arguments (\<lambda>m.
     with_repo m (\<lambda>owner repo_name.
       one_call env
         (mk_request ''GET'' (api @ ''/repos/'' @ owner @ ''/'' @ repo_name) env None None)
         (\<lambda>response.
            if status_code response \<noteq> 200
            then failure_text response (str_of_int (status_code response))
            else
              exc_bind (resp_json response) (\<lambda>data.
              exc_bind (repo_details data) (\<lambda>details.
                Inr [TextContent details])))))"

definition search_line :: "json \<Rightarrow> pyexc + string" where
  "search_line repo =
     fmt [item_str repo ''full_name'', Inr ('' - '' @ star @ '' ''),
          item_str repo ''stargazers_count'', Inr '' - '',
          get_or_str repo ''description'' ''No description'']"

definition search_repositories :: "env \<Rightarrow> string \<Rightarrow> json \<Rightarrow> outcome" where
  "search_repositories env name arguments =
     with_dict arguments (\<lambda>m.
       let query = dget m ''query'' JNull in
       if \<not> truthy query then ret [TextContent (cross @ '' Missing query parameter'')]
       else
         let params = copy_if_set m ''order'' ''order'' (copy_if_set m ''sort'' ''sort''
                        [(''q'', query), (''per_page'', dget m ''per_page'' (JInt 30))]) in
         one_call env
           (mk_request ''GET'' (api @ ''/search/repositories'') env (Some params) None)
           (\<lambda>response.
              if status_code response \<noteq> 200
              then failure_text response (str_of_int (status_code response))
              else
                exc_bind (resp_json response) (\<lambda>data.
                exc_bind (py_get data ''items'' (JList [])) (\<lambda>items.
                exc_bind (py_iter items) (\<lambda>repos.
                exc_bind (for_each search_line repos []) (\<lambda>results.
                exc_bind (py_get data ''total_count'' (JInt 0)) (\<lambda>total.
                  Inr [TextContent
                         (''Found '' @ py_str total @ '' repositories (showing ''
                            @ str_of_nat (length results) @ ''):'' @ nl @ nl
                            @ join_str nl results)])))))))"

definition create_repository :: "env \<Rightarrow> string \<Rightarrow> json \<Rightarrow> outcome" where
  "create_repository env name arguments =
     (if falsy_opt (GITHUB_TOKEN env) then ret token_required
      else
        with_dict arguments (\<lambda>m.
          let repo_name = dget m ''name'' JNull in
          if \<not> truthy repo_name then ret [TextContent (cross @ '' Missing repository name'')]
          else
            let data = [(''name'', repo_name),
                        (''description'', dget m ''description'' (JStr [])),
                        (''private'', dget m ''private'' (JBool False)),
                        (''auto_init'', dget m ''auto_init'' (JBool True))] in
            one_call env
              (mk_request ''POST'' (api @ ''/user/repos'') env None (Some (JObj data)))
              (\<lambda>response.
                 if status_code response \<notin> set [200, 201]
                 then failure_text response (str_of_int (status_code response))
                 else
                   exc_bind (resp_json response) (\<lambda>repo.
                   exc_bind (item_str repo ''html_url'') (\<lambda>url.
                     Inr [TextContent (check_mark @ '' Repository created: '' @ url)])))))"

definition fork_repository :: "env \<Rightarrow> string \<Rightarrow> json \<Rightarrow> outcome" where
  "fork_repository env name arguments =
     (if falsy_opt (GITHUB_TOKEN env) then ret token_required
      else
        with_dict arguments (\<lambda>m.
        with_repo m (\<lambda>owner repo_name.
          one_call env
            (mk_request ''POST'' (api @ ''/repos/'' @ owner @ ''/'' @ repo_name @ ''/forks'') env
               None None)
            (\<lambda>response.
               if status_code response \<notin> set [200, 202]
               then failure_text response (str_of_int (status_code response))
               else
                 exc_bind (resp_json response) (\<lambda>fork.
                 exc_bind (item_str fork ''html_url'') (\<lambda>url.
                   Inr [TextContent (check_mark @ '' Repository forked: '' @ url)]))))))"

subsection \<open>Issue tools\<close>

text \<open>\<open>[l["name"] for l in labels]\<close>.\<close>

fun label_names :: "json list \<Rightarrow> pyexc + json list" where
  "label_names [] = Inr []"
| "label_names (l # ls) =
     exc_bind (py_item l ''name'') (\<lambda>n. exc_bind (label_names ls) (\<lambda>ns. Inr (n # ns)))"

text \<open>The body of the loop of \<open>list_issues\<close> for an entry that is kept.\<close>

definition issue_block :: "json \<Rightarrow> pyexc + string" where
  "issue_block issue =
     exc_bind (py_get issue ''labels'' (JList [])) (\<lambda>ls.
     exc_bind (py_iter ls) (\<lambda>elems.
     exc_bind (label_names elems) (\<lambda>names.
     exc_bind (py_join '', '' names) (\<lambda>labels.
       fmt [Inr ''#'', item_str issue ''number'', Inr '' - '', item_str issue ''title'',
            Inr (nl @ ''  State: ''), item_str issue ''state'',
            Inr '' | Labels: '', Inr (if labels \<noteq> [] then labels else ''None''),
            Inr (nl @ ''  URL: ''), item_str issue ''html_url'']))))"

text \<open>
  The loop of \<open>list_issues\<close>: an entry is formatted and appended when
  \<open>"pull_request" not in issue\<close>, and passed over otherwise.
\<close>

fun issue_loop :: "json list \<Rightarrow> string list \<Rightarrow> pyexc + string list" where
  "issue_loop [] results = Inr results"
| "issue_loop (issue # issues) results =
     exc_bind (py_in ''pull_request'' issue) (\<lambda>is_pr.
       if \<not> is_pr
       then exc_bind (issue_block issue) (\<lambda>block. issue_loop issues (results @ [block]))
       else issue_loop issues results)"

definition list_issues :: "env \<Rightarrow> string \<Rightarrow> json \<Rightarrow> outcome" where
  "list_issues env name arguments =
     with_dict arguments (\<lambda>m.
     with_repo m (\<lambda>owner repo_name.
       let params = copy_if_set m ''labels'' ''labels''
                      [(''state'', dget m ''state'' (JStr ''open'')),
                       (''per_page'', dget m ''per_page'' (JInt 30))] in
       one_call env
         (mk_request ''GET'' (api @ ''/repos/'' @ owner @ ''/'' @ repo_name @ ''/issues'') env
            (Some params) None)
         (\<lambda>response.
            if status_code response \<noteq> 200
            then failure_text response (str_of_int (status_code response))
            else
              exc_bind (resp_json response) (\<lambda>issues.
                if \<not> truthy issues then Inr [TextContent ''No issues found'']
                else
                  exc_bind (py_iter issues) (\<lambda>entries.
                  exc_bind (issue_loop entries []) (\<lambda>results.
                    Inr [TextContent (join_str (nl @ nl) results)]))))))"

definition create_issue :: "env \<Rightarrow> string \<Rightarrow> json \<Rightarrow> outcome" where
  "create_issue env name arguments =
     (if falsy_opt (GITHUB_TOKEN env) then ret token_required
      else
        with_dict arguments (\<lambda>m.
        with_repo m (\<lambda>owner repo_name.
          let title = dget m ''title'' JNull in
          if \<not> truthy title then ret [TextContent (cross @ '' Missing title parameter'')]
          else
            let data = copy_if_set m ''assignees'' ''assignees'' (copy_if_set m ''labels'' ''labels''
                         [(''title'', title), (''body'', dget m ''body'' (JStr []))]) in
            one_call env
              (mk_request ''POST'' (api @ ''/repos/'' @ owner @ ''/'' @ repo_name @ ''/issues'') env
                 None (Some (JObj data)))
              (\<lambda>response.
                 if status_code response \<notin> set [200, 201]
                 then failure_text response (str_of_int (status_code response))
                 else
                   exc_bind (resp_json response) (\<lambda>issue.
                   exc_bind (fmt [Inr (check_mark @ '' Issue created: #''), item_str issue ''number'',
                                  Inr '' - '', item_str issue ''html_url'']) (\<lambda>t.
                     Inr [TextContent t]))))))"

definition update_issue :: "env \<Rightarrow> string \<Rightarrow> json \<Rightarrow> outcome" where
  "update_issue env name arguments =
     (if falsy_opt (GITHUB_TOKEN env) then ret token_required
      else
        with_dict arguments (\<lambda>m.
        with_repo m (\<lambda>owner repo_name.
          let issue_number = dget m ''issue_number'' JNull in
          if \<not> truthy issue_number
          then ret [TextContent (cross @ '' Missing issue_number parameter'')]
          else
            let data = copy_if_set m ''labels'' ''labels'' (copy_if_set m ''state'' ''state''
                         (copy_if_set m ''body'' ''body'' (copy_if_set m ''title'' ''title'' []))) in
            one_call env
              (mk_request ''PATCH''
                 (api @ ''/repos/'' @ owner @ ''/'' @ repo_name @ ''/issues/'' @ py_str issue_number)
                 env None (Some (JObj data)))
              (\<lambda>response.
                 if status_code response \<noteq> 200
                 then failure_text response (str_of_int (status_code response))
                 else
                   exc_bind (resp_json response) (\<lambda>issue.
                   exc_bind (fmt [Inr (check_mark @ '' Issue updated: #''), item_str issue ''number'',
                                  Inr '' - '', item_str issue ''html_url'']) (\<lambda>t.
                     Inr [TextContent t]))))))"

subsection \<open>Pull request tools\<close>

definition pr_block :: "json \<Rightarrow> pyexc + string" where
  "pr_block pr =
     fmt [Inr ''#'', item_str pr ''number'', Inr '' - '', item_str pr ''title'',
          Inr (nl @ ''  ''), item2_str pr ''head'' ''ref'', Inr ('' '' @ arrow @ '' ''),
          item2_str pr ''base'' ''ref'',
          Inr (nl @ ''  State: ''), item_str pr ''state'',
          Inr '' | Draft: '', get_str pr ''draft'' (JBool False),
          Inr (nl @ ''  URL: ''), item_str pr ''html_url'']"

definition list_pull_requests :: "env \<Rightarrow> string \<Rightarrow> json \<Rightarrow> outcome" where
  "list_pull_requests env name arguments =
     with_dict arguments (\<lambda>m.
     with_repo m (\<lambda>owner repo_name.
       let params = [(''state'', dget m ''state'' (JStr ''open'')),
                     (''per_page'', dget m ''per_page'' (JInt 30))] in
       one_call env
         (mk_request ''GET'' (api @ ''/repos/'' @ owner @ ''/'' @ repo_name @ ''/pulls'') env
            (Some params) None)
         (\<lambda>response.
            if status_code response \<noteq> 200
            then failure_text response (str_of_int (status_code response))
            else
              exc_bind (resp_json response) (\<lambda>prs.
                if \<not> truthy prs then Inr [TextContent ''No pull requests found'']
                else render_list prs pr_block (nl @ nl)))))"

text \<open>\<open>for field in required: if not arguments.get(field): return ...\<close>.\<close>

fun first_missing :: "(string \<times> json) list \<Rightarrow> string list \<Rightarrow> string option" where
  "first_missing m [] = None"
| "first_missing m (field # required) =
     (if \<not> truthy (dget m field JNull) then Some field else first_missing m required)"

definition create_pull_request :: "env \<Rightarrow> string \<Rightarrow> json \<Rightarrow> outcome" where
  "create_pull_request env name arguments =
     (if falsy_opt (GITHUB_TOKEN env) then ret token_required
      else
        with_dict arguments (\<lambda>m.
        with_repo m (\<lambda>owner repo_name.
          case first_missing m [''title'', ''head'', ''base''] of
            Some field \<Rightarrow> ret [TextContent (cross @ '' Missing '' @ field @ '' parameter'')]
          | None \<Rightarrow>
              let data = [(''title'', dget m ''title'' JNull),
                          (''head'', dget m ''head'' JNull),
                          (''base'', dget m ''base'' JNull),
                          (''body'', dget m ''body'' (JStr [])),
                          (''draft'', dget m ''draft'' (JBool False))] in
              one_call env
                (mk_request ''POST'' (api @ ''/repos/'' @ owner @ ''/'' @ repo_name @ ''/pulls'') env
                   None (Some (JObj data)))
                (\<lambda>response.
                   if status_code response \<notin> set [200, 201]
                   then failure_text response (str_of_int (status_code response))
                   else
                     exc_bind (resp_json response) (\<lambda>pr.
                     exc_bind (fmt [Inr (check_mark @ '' Pull request created: #''),
                                    item_str pr ''number'', Inr '' - '', item_str pr ''html_url''])
                       (\<lambda>t. Inr [TextContent t]))))))"

subsection \<open>File and content tools\<close>

definition get_file_contents :: "env \<Rightarrow> string \<Rightarrow> json \<Rightarrow> outcome" where
  "get_file_contents env name arguments =
     with_dict arguments (\<lambda>m.
     with_repo m (\<lambda>owner repo_name.
       let path = dget m ''path'' JNull in
       if \<not> truthy path then ret [TextContent (cross @ '' Missing path parameter'')]
       else
         let params = copy_if_set m ''branch'' ''ref'' [] in
         one_call env
           (mk_request ''GET''
              (api @ ''/repos/'' @ owner @ ''/'' @ repo_name @ ''/contents/'' @ py_str path) env
              (Some params) None)
           (\<lambda>response.
              if status_code response \<noteq> 200
              then failure_text response (str_of_int (status_code response))
              else
                exc_bind (resp_json response) (\<lambda>data.
                exc_bind (py_item data ''content'') (\<lambda>encoded.
                exc_bind (b64decode_utf8 env encoded) (\<lambda>decoded.
                exc_bind (fmt [Inr (''File: '' @ py_str path @ nl @ ''Size: ''),
                               item_str data ''size'', Inr ('' bytes'' @ nl @ ''SHA: ''),
                               item_str data ''sha'', Inr (nl @ nl @ decoded)]) (\<lambda>result.
                  Inr [TextContent result])))))))"

definition create_or_update_file :: "env \<Rightarrow> string \<Rightarrow> json \<Rightarrow> outcome" where
  "create_or_update_file env name arguments =
     (if falsy_opt (GITHUB_TOKEN env) then ret token_required
      else
        with_dict arguments (\<lambda>m.
        with_repo m (\<lambda>owner repo_name.
          let path = dget m ''path'' JNull;
              content = dget m ''content'' JNull;
              message = dget m ''message'' JNull;
              branch = dget m ''branch'' JNull in
          if \<not> (truthy path \<and> truthy content \<and> truthy message \<and> truthy branch)
          then ret [TextContent (cross @ '' Missing required parameters'')]
          else
            pre (case content of
                   JStr s \<Rightarrow> Inr (b64encode env s)
                 | _ \<Rightarrow> Inl (no_attribute content ''encode'')) (\<lambda>encoded_content.
              let data = copy_if_set m ''sha'' ''sha''
                           [(''message'', message), (''content'', JStr encoded_content),
                            (''branch'', branch)] in
              one_call env
                (mk_request ''PUT''
                   (api @ ''/repos/'' @ owner @ ''/'' @ repo_name @ ''/contents/'' @ py_str path) env
                   None (Some (JObj data)))
                (\<lambda>response.
                   if status_code response \<notin> set [200, 201]
                   then failure_text response (str_of_int (status_code response))
                   else
                     exc_bind (resp_json response) (\<lambda>result.
                     exc_bind (item2_str result ''content'' ''html_url'') (\<lambda>url.
                       Inr [TextContent
                              (check_mark @ '' File ''
                                 @ (if truthy (dget m ''sha'' JNull) then ''updated'' else ''created'')
                                 @ '': '' @ url)])))))))"

subsection \<open>Branch tools\<close>

definition branch_line :: "json \<Rightarrow> pyexc + string" where
  "branch_line branch =
     exc_bind (py_get branch ''protected'' JNull) (\<lambda>p.
       fmt [Inr ((if truthy p then lock else []) @ '' ''), item_str branch ''name'',
            Inr '' (SHA: '',
            exc_bind (py_item branch ''commit'') (\<lambda>c.
            exc_bind (py_item c ''sha'') (\<lambda>sha.
            exc_bind (py_take7 sha) (\<lambda>short. Inr (py_str short)))),
            Inr '')''])"

definition list_branches :: "env \<Rightarrow> string \<Rightarrow> json \<Rightarrow> outcome" where
  "list_branches env name arguments =
     with_dict arguments (\<lambda>m.
     with_repo m (\<lambda>owner repo_name.
       let params = [(''per_page'', dget m ''per_page'' (JInt 30))] in
       one_call env
         (mk_request ''GET'' (api @ ''/repos/'' @ owner @ ''/'' @ repo_name @ ''/branches'') env
            (Some params) None)
         (\<lambda>response.
            if status_code response \<noteq> 200
            then failure_text response (str_of_int (status_code response))
            else
              exc_bind (resp_json response) (\<lambda>branches.
                if \<not> truthy branches then Inr [TextContent ''No branches found'']
                else render_list branches branch_line nl))))"

text \<open>The two calls of \<open>create_branch\<close>: the lookup of the source reference and the creation.\<close>

definition ref_lookup_request :: "env \<Rightarrow> string \<Rightarrow> string \<Rightarrow> json \<Rightarrow> request" where
  "ref_lookup_request env owner repo_name from_branch =
     mk_request ''GET''
       (api @ ''/repos/'' @ owner @ ''/'' @ repo_name @ ''/git/ref/heads/'' @ py_str from_branch)
       env None None"

definition ref_create_request :: "env \<Rightarrow> string \<Rightarrow> string \<Rightarrow> json \<Rightarrow> json \<Rightarrow> request" where
  "ref_create_request env owner repo_name branch sha =
     mk_request ''POST'' (api @ ''/repos/'' @ owner @ ''/'' @ repo_name @ ''/git/refs'') env None
       (Some (JObj [(''ref'', JStr (''refs/heads/'' @ py_str branch)), (''sha'', sha)]))"

text \<open>\<open>sha = ref_response.json()["object"]["sha"]\<close>.\<close>

definition ref_sha :: "response \<Rightarrow> pyexc + json" where
  "ref_sha ref_response =
     exc_bind (resp_json ref_response) (\<lambda>j.
     exc_bind (py_item j ''object'') (\<lambda>obj. py_item obj ''sha''))"

definition create_branch :: "env \<Rightarrow> string \<Rightarrow> json \<Rightarrow> outcome" where
  "create_branch env name arguments =
     (if falsy_opt (GITHUB_TOKEN env) then ret token_required
      else
        with_dict arguments (\<lambda>m.
        with_repo m (\<lambda>owner repo_name.
          let branch = dget m ''branch'' JNull in
          if \<not> truthy branch then ret [TextContent (cross @ '' Missing branch parameter'')]
          else
            let from_branch = dget m ''from_branch'' (JStr ''main'');
                lookup = ref_lookup_request env owner repo_name from_branch in
            (case network env [] lookup of
               Inl e \<Rightarrow> (Inr (guard (Inl e)), [lookup])
             | Inr ref_response \<Rightarrow>
                 if status_code ref_response \<noteq> 200
                 then (Inr (guard (failure_text ref_response
                                     (str_of_int (status_code ref_response)))), [lookup])
                 else
                   (case ref_sha ref_response of
                      Inl e \<Rightarrow> (Inr (guard (Inl e)), [lookup])
                    | Inr sha \<Rightarrow>
                        let creation = ref_create_request env owner repo_name branch sha in
                        (Inr (guard
                           (exc_bind (network env [lookup] creation) (\<lambda>response.
                              if status_code response \<notin> set [200, 201]
                              then failure_text response (str_of_int (status_code response))
                              else Inr [TextContent
                                     (check_mark @ '' Branch '' @ [CHR 0x27] @ py_str branch
                                        @ [CHR 0x27] @ '' created from '' @ [CHR 0x27]
                                        @ py_str from_branch @ [CHR 0x27])]))),
                         [lookup, creation]))))))"

subsection \<open>Commit tools\<close>

text \<open>\<open>v.split('\n')[0]\<close>.\<close>

definition first_line :: "json \<Rightarrow> pyexc + string" where
  "first_line v =
     (case v of
        JStr s \<Rightarrow> Inr (takeWhile (\<lambda>c. c \<noteq> CHR 0x0A) s)
      | _ \<Rightarrow> Inl (no_attribute v ''split''))"

definition commit_block :: "json \<Rightarrow> pyexc + string" where
  "commit_block commit =
     exc_bind (py_item commit ''sha'') (\<lambda>full.
     exc_bind (py_take7 full) (\<lambda>sha.
     exc_bind (py_item commit ''commit'') (\<lambda>c.
     exc_bind (py_item c ''message'') (\<lambda>msg.
     exc_bind (first_line msg) (\<lambda>message.
     exc_bind (py_item commit ''commit'') (\<lambda>c1.
     exc_bind (py_item c1 ''author'') (\<lambda>a1.
     exc_bind (py_item a1 ''name'') (\<lambda>author.
     exc_bind (py_item commit ''commit'') (\<lambda>c2.
     exc_bind (py_item c2 ''author'') (\<lambda>a2.
     exc_bind (py_item a2 ''date'') (\<lambda>date.
       Inr (py_str sha @ '' - '' @ message @ nl @ ''  by '' @ py_str author @ '' on ''
              @ py_str date))))))))))))"

definition list_commits :: "env \<Rightarrow> string \<Rightarrow> json \<Rightarrow> outcome" where
  "list_commits env name arguments =
     with_dict arguments (\<lambda>m.
     with_repo m (\<lambda>owner repo_name.
       let params = copy_if_set m ''branch'' ''sha''
                      [(''per_page'', dget m ''per_page'' (JInt 30))] in
       one_call env
         (mk_request ''GET'' (api @ ''/repos/'' @ owner @ ''/'' @ repo_name @ ''/commits'') env
            (Some params) None)
         (\<lambda>response.
            if status_code response \<noteq> 200
            then failure_text response (str_of_int (status_code response))
            else
              exc_bind (resp_json response) (\<lambda>commits.
                if \<not> truthy commits then Inr [TextContent ''No commits found'']
                else render_list commits commit_block (nl @ nl)))))"

subsection \<open>Search, release and user tools\<close>

definition code_block :: "json \<Rightarrow> pyexc + string" where
  "code_block item =
     fmt [item2_str item ''repository'' ''full_name'', Inr ''/'', item_str item ''path'',
          Inr (nl @ ''  URL: ''), item_str item ''html_url'']"

definition search_code :: "env \<Rightarrow> string \<Rightarrow> json \<Rightarrow> outcome" where
  "search_code env name arguments =
     with_dict arguments (\<lambda>m.
       let query = dget m ''query'' JNull in
       if \<not> truthy query then ret [TextContent (cross @ '' Missing query parameter'')]
       else
         let params = [(''q'', query), (''per_page'', dget m ''per_page'' (JInt 30))] in
         one_call env
           (mk_request ''GET'' (api @ ''/search/code'') env (Some params) None)
           (\<lambda>response.
              if status_code response \<noteq> 200
              then failure_text response (str_of_int (status_code response))
              else
                exc_bind (resp_json response) (\<lambda>data.
                exc_bind (py_get data ''items'' (JList [])) (\<lambda>items.
                  if \<not> truthy items then Inr [TextContent ''No code results found'']
                  else
                    exc_bind (py_iter items) (\<lambda>xs.
                    exc_bind (for_each code_block xs []) (\<lambda>results.
                    exc_bind (py_get data ''total_count'' (JInt 0)) (\<lambda>total.
                      Inr [TextContent
                             (''Found '' @ py_str total @ '' code results (showing ''
                                @ str_of_nat (length results) @ ''):'' @ nl @ nl
                                @ join_str (nl @ nl) results)])))))))"

definition release_block :: "json \<Rightarrow> pyexc + string" where
  "release_block release =
     exc_bind (py_get release ''prerelease'' JNull) (\<lambda>pre_flag.
     exc_bind (py_get release ''draft'' JNull) (\<lambda>draft_flag.
       fmt [Inr ((if truthy pre_flag then construction @ '' '' else [])
                   @ (if truthy draft_flag then memo @ '' '' else [])),
            item_str release ''tag_name'', Inr '' - '', item_str release ''name'',
            Inr (nl @ ''  Published: ''), get_str release ''published_at'' (JStr ''N/A''),
            Inr (nl @ ''  URL: ''), item_str release ''html_url'']))"

definition list_releases :: "env \<Rightarrow> string \<Rightarrow> json \<Rightarrow> outcome" where
  "list_releases env name arguments =
     with_dict arguments (\<lambda>m.
     with_repo m (\<lambda>owner repo_name.
       let params = [(''per_page'', dget m ''per_page'' (JInt 30))] in
       one_call env
         (mk_request ''GET'' (api @ ''/repos/'' @ owner @ ''/'' @ repo_name @ ''/releases'') env
            (Some params) None)
         (\<lambda>response.
            if status_code response \<noteq> 200
            then failure_text response (str_of_int (status_code response))
            else
              exc_bind (resp_json response) (\<lambda>releases.
                if \<not> truthy releases then Inr [TextContent ''No releases found'']
                else render_list releases release_block (nl @ nl)))))"

definition user_info :: "json \<Rightarrow> pyexc + string" where
  "user_info user =
     fmt [Inr ''Username: '', item_str user ''login'',
          Inr (nl @ ''Name: ''), get_or_str user ''name'' ''N/A'',
          Inr (nl @ ''Bio: ''), get_or_str user ''bio'' ''N/A'',
          Inr (nl @ ''Company: ''), get_or_str user ''company'' ''N/A'',
          Inr (nl @ ''Location: ''), get_or_str user ''location'' ''N/A'',
          Inr (nl @ ''Email: ''), get_or_str user ''email'' ''N/A'',
          Inr (nl @ ''Blog: ''), get_or_str user ''blog'' ''N/A'',
          Inr (nl @ ''Public Repos: ''), item_str user ''public_repos'',
          Inr (nl @ ''Followers: ''), item_str user ''followers'',
          Inr (nl @ ''Following: ''), item_str user ''following'',
          Inr (nl @ ''Created: ''), item_str user ''created_at'',
          Inr (nl @ ''Profile: ''), item_str user ''html_url'']"

definition get_user_info :: "env \<Rightarrow> string \<Rightarrow> json \<Rightarrow> outcome" where
  "get_user_info env name arguments =
     with_dict arguments (\<lambda>m.
       let username = dget m ''username'' JNull in
       if \<not> truthy username then ret [TextContent (cross @ '' Missing username parameter'')]
       else
         one_call env
           (mk_request ''GET'' (api @ ''/users/'' @ py_str username) env None None)
           (\<lambda>response.
              if status_code response \<noteq> 200
              then failure_text response (str_of_int (status_code response))
              else
                exc_bind (resp_json response) (\<lambda>user.
                exc_bind (user_info user) (\<lambda>info.
                  Inr [TextContent info]))))"

subsection \<open>The dispatcher\<close>

definition handlers :: "(string \<times> (env \<Rightarrow> string \<Rightarrow> json \<Rightarrow> outcome)) list" where
  "handlers =
     [(''list_repositories'', list_repositories),
      (''get_repo_details'', get_repo_details),
      (''list_issues'', list_issues),
      (''create_issue'', create_issue),
      (''update_issue'', update_issue),
      (''list_pull_requests'', list_pull_requests),
      (''create_pull_request'', create_pull_request),
      (''get_file_contents'', get_file_contents),
      (''create_or_update_file'', create_or_update_file),
      (''list_branches'', list_branches),
      (''create_branch'', create_branch),
      (''list_commits'', list_commits),
      (''search_repositories'', search_repositories),
      (''search_code'', search_code),
      (''create_repository'', create_repository),
      (''fork_repository'', fork_repository),
      (''list_releases'', list_releases),
      (''get_user_info'', get_user_info)]"

definition handle_tool_call :: "env \<Rightarrow> string \<Rightarrow> (string \<times> json) list option \<Rightarrow> outcome" where
  "handle_tool_call env name arguments =
     (let args = extract_arguments arguments in
      case map_of handlers name of
        Some handler \<Rightarrow> handler env name args
      | None \<Rightarrow> (Inr [TextContent (cross @ '' Unknown tool: '' @ name)], []))"

section \<open>The first tool server (git_mcp1/backend/github_server.py)\<close>

text \<open>
  The earlier server has two tools and its own dispatcher. Its \<open>_parse_repo_string\<close> is
  the same text as the one above. The names carry the suffix \<open>1\<close>. Its handlers take
  the arguments as the protocol layer hands them over, a dict or \<open>None\<close>.
\<close>

text \<open>
  \<open>except httpx.RequestError\<close>: the exception classes of \<open>httpx\<close> below \<open>RequestError\<close>.
\<close>

definition request_error_classes :: "string list" where
  "request_error_classes =
     [''RequestError'', ''TransportError'', ''TimeoutException'', ''ConnectTimeout'',
      ''ReadTimeout'', ''WriteTimeout'', ''PoolTimeout'', ''NetworkError'', ''ConnectError'',
      ''ReadError'', ''WriteError'', ''CloseError'', ''ProtocolError'', ''LocalProtocolError'',
      ''RemoteProtocolError'', ''ProxyError'', ''UnsupportedProtocol'', ''DecodingError'',
      ''TooManyRedirects'']"

definition guard1 :: "pyexc + content list \<Rightarrow> content list" where
  "guard1 r =
     (case r of
        Inl e \<Rightarrow>
          if exc_class e \<in> set request_error_classes
          then [TextContent (cross @ '' Failed to connect to GitHub API: '' @ exc_str e)]
          else [TextContent (cross @ '' Unexpected error processing GitHub response: '' @ exc_str e)]
      | Inr out \<Rightarrow> out)"

text \<open>\<open>len(v)\<close>, which the handler evaluates for its log line.\<close>

definition py_len :: "json \<Rightarrow> pyexc + nat" where
  "py_len v =
     (case v of
        JStr s \<Rightarrow> Inr (length (utf8_chars s))
      | JList xs \<Rightarrow> Inr (length xs)
      | JObj m \<Rightarrow> Inr (length m)
      | _ \<Rightarrow> Inl (Exc ''TypeError'' (''object of type '' @ [CHR 0x27] @ type_name v @ [CHR 0x27]
                                      @ '' has no len()'')))"

definition repo_line1 :: "json \<Rightarrow> pyexc + string" where
  "repo_line1 repo =
     fmt [item_str repo ''full_name'', Inr '' '', Inr ''('',
          get_str repo ''visibility'' (JStr ''public''), Inr '') - '',
          get_or_str repo ''description'' ''No description'']"

definition list_repositories1 :: "env \<Rightarrow> string \<Rightarrow> (string \<times> json) list option \<Rightarrow> outcome" where
  "list_repositories1 env name arguments =
     (case arguments of
        None \<Rightarrow> ret [TextContent (cross @ '' Missing arguments'')]
      | Some outer \<Rightarrow>
          if outer = [] then ret [TextContent (cross @ '' Missing arguments'')]
          else
            let inner = (case map_of outer ''arguments'' of Some v \<Rightarrow> v | None \<Rightarrow> JObj outer) in
            (case inner of
               JObj m \<Rightarrow>
                 if m = []
                 then ret [TextContent
                             (cross @ '' Invalid arguments: expected dictionary with username'')]
                 else
                   let username = dget m ''username'' JNull in
                   if \<not> truthy username
                   then ret [TextContent (cross @ '' Missing username parameter'')]
                   else
                     let req = mk_request ''GET'' (api @ ''/users/'' @ py_str username @ ''/repos'')
                                 env None None in
                     (Inr (guard1
                        (exc_bind (network env [] req) (\<lambda>response.
                           if status_code response \<noteq> 200
                           then
                             exc_bind (resp_json response) (\<lambda>error_data.
                             exc_bind (py_get error_data ''message''
                                         (JStr (''GitHub API Error: ''
                                                  @ str_of_int (status_code response))))
                               (\<lambda>error_message.
                                  Inr [TextContent (cross @ '' '' @ py_str error_message)]))
                           else
                             exc_bind (resp_json response) (\<lambda>data.
                             exc_bind (py_len data) (\<lambda>n.
                               if \<not> truthy data
                               then Inr [TextContent
                                      ''No repositories found. Note: Only public repositories are visible.'']
                               else render_list data repo_line1 (nl @ nl)))))),
                      [req])
             | _ \<Rightarrow> ret [TextContent
                           (cross @ '' Invalid arguments: expected dictionary with username'')]))"

definition detail_lines :: "json \<Rightarrow> pyexc + content list" where
  "detail_lines data =
     exc_bind (get_str data ''full_name'' JNull) (\<lambda>a.
     exc_bind (get_str data ''description'' JNull) (\<lambda>b.
     exc_bind (get_str data ''private'' JNull) (\<lambda>c.
     exc_bind (get_str data ''html_url'' JNull) (\<lambda>d.
     exc_bind (get_str data ''stargazers_count'' JNull) (\<lambda>e.
     exc_bind (get_str data ''forks_count'' JNull) (\<lambda>f.
     exc_bind (get_str data ''open_issues_count'' JNull) (\<lambda>g.
       Inr [TextContent (''full_name: '' @ a), TextContent (''description: '' @ b),
            TextContent (''private: '' @ c), TextContent (''html_url: '' @ d),
            TextContent (''stars: '' @ e), TextContent (''forks: '' @ f),
            TextContent (''open_issues: '' @ g)])))))))"

definition get_repo_details1 :: "env \<Rightarrow> string \<Rightarrow> (string \<times> json) list option \<Rightarrow> outcome" where
  "get_repo_details1 env name arguments =
     (let inner = (case arguments of
                     None \<Rightarrow> JNull
                   | Some outer \<Rightarrow>
                       (case map_of outer ''arguments'' of Some v \<Rightarrow> v | None \<Rightarrow> JObj outer)) in
      if \<not> truthy inner
      then ret [TextContent (cross @ '' Missing '' @ [CHR 0x27] @ ''repo'' @ [CHR 0x27]
                               @ '' argument (owner/repo).'')]
      else
        with_dict inner (\<lambda>m.
          pre (parse_repo_string (dget m ''repo'' JNull)) (\<lambda>(owner, repo_name).
            case (owner, repo_name) of
              (Some ow, Some rn) \<Rightarrow>
                if ow = [] \<or> rn = []
                then ret [TextContent (cross @ '' Invalid '' @ [CHR 0x27] @ ''repo'' @ [CHR 0x27]
                            @ '' format. Use '' @ [CHR 0x27] @ ''owner/repo'' @ [CHR 0x27] @ ''.'')]
                else
                  let req = mk_request ''GET'' (api @ ''/repos/'' @ ow @ ''/'' @ rn) env None None in
                  (case network env [] req of
                     Inl e \<Rightarrow> (Inl e, [req])
                   | Inr response \<Rightarrow>
                       if status_code response \<noteq> 200
                       then
                         (let error_message =
                                (case exc_bind (resp_json response) (\<lambda>error_data.
                                        py_get error_data ''message''
                                          (JStr (str_of_int (status_code response)))) of
                                   Inl e \<Rightarrow> JStr (str_of_int (status_code response))
                                 | Inr v \<Rightarrow> v)
                          in (Inr [TextContent (cross @ '' '' @ py_str error_message)], [req]))
                       else (exc_bind (resp_json response) detail_lines, [req]))
            | _ \<Rightarrow> ret [TextContent (cross @ '' Invalid '' @ [CHR 0x27] @ ''repo'' @ [CHR 0x27]
                          @ '' format. Use '' @ [CHR 0x27] @ ''owner/repo'' @ [CHR 0x27] @ ''.'')])))"

definition handle_tool_call1 :: "env \<Rightarrow> string \<Rightarrow> (string \<times> json) list option \<Rightarrow> outcome" where
  "handle_tool_call1 env name arguments =
     (if name = ''list_repositories'' then list_repositories1 env name arguments
      else if name = ''get_repo_details'' then get_repo_details1 env name arguments
      else (Inr [TextContent (cross @ '' Unknown tool: '' @ name)], []))"

section \<open>The command client (git_mcp2/mcp_client.py)\<close>

subsection \<open>Tokenising\<close>

text \<open>
  \<open>shlex.split(query)\<close> of the standard library: the lexer in POSIX mode, splitting on
  white space only, without comment characters. The states are those of
  \<open>shlex.read_token\<close>: between tokens, inside a word, inside a quotation, after the
  escape character. \<open>esc\<close> is the state an escape returns to, \<open>tok\<close> the token under
  construction, \<open>quoted\<close> whether it had a quotation (an empty quoted token is a token).
\<close>

datatype lex_state = Between | InWord | InQuote char | Escaped

definition lex_whitespace :: string where
  "lex_whitespace = [CHR '' '', CHR 0x09, CHR 0x0D, CHR 0x0A]"

definition lex_quotes :: string where
  "lex_quotes = [CHR 0x27, CHR 0x22]"

definition lex_escape :: char where
  "lex_escape = CHR 0x5C"

definition is_quote_state :: "lex_state \<Rightarrow> bool" where
  "is_quote_state st = (case st of InQuote q \<Rightarrow> True | _ \<Rightarrow> False)"

fun read_tokens :: "lex_state \<Rightarrow> lex_state \<Rightarrow> string \<Rightarrow> bool \<Rightarrow> string \<Rightarrow> pyexc + string list" where
  "read_tokens st esc tok quoted [] =
     (case st of
        InQuote q \<Rightarrow> Inl (Exc ''ValueError'' ''No closing quotation'')
      | Escaped \<Rightarrow> Inl (Exc ''ValueError'' ''No escaped character'')
      | _ \<Rightarrow> Inr (if \<not> quoted \<and> tok = [] then [] else [tok]))"
| "read_tokens st esc tok quoted (c # cs) =
     (case st of
        Between \<Rightarrow>
          if c \<in> set lex_whitespace then
            (if tok \<noteq> [] \<or> quoted
             then exc_bind (read_tokens Between Between [] False cs) (\<lambda>ts. Inr (tok # ts))
             else read_tokens Between esc tok quoted cs)
          else if c = lex_escape then read_tokens Escaped InWord tok quoted cs
          else if c \<in> set lex_quotes then read_tokens (InQuote c) esc tok quoted cs
          else read_tokens InWord esc [c] quoted cs
      | InQuote q \<Rightarrow>
          if c = q then read_tokens InWord esc tok True cs
          else if c = lex_escape \<and> q = CHR 0x22 then read_tokens Escaped (InQuote q) tok True cs
          else read_tokens (InQuote q) esc (tok @ [c]) True cs
      | Escaped \<Rightarrow>
          read_tokens esc esc
            ((if is_quote_state esc \<and> c \<noteq> lex_escape \<and> esc \<noteq> InQuote c
              then tok @ [lex_escape] else tok) @ [c])
            quoted cs
      | InWord \<Rightarrow>
          if c \<in> set lex_whitespace then
            (if tok \<noteq> [] \<or> quoted
             then exc_bind (read_tokens Between Between [] False cs) (\<lambda>ts. Inr (tok # ts))
             else read_tokens Between esc tok quoted cs)
          else if c \<in> set lex_quotes then read_tokens (InQuote c) esc tok quoted cs
          else if c = lex_escape then read_tokens Escaped InWord tok quoted cs
          else read_tokens InWord esc (tok @ [c]) quoted cs)"

definition shlex_split :: "string \<Rightarrow> pyexc + string list" where
  "shlex_split s = read_tokens Between Between [] False s"

text \<open>
  The first lines of \<open>parse_command\<close>: the tokens of the line, with the plain white-space
  split when the lexer raises.
\<close>

definition command_tokens :: "string \<Rightarrow> string list" where
  "command_tokens query =
     (case shlex_split query of Inr parts \<Rightarrow> parts | Inl e \<Rightarrow> str_split query)"

subsection \<open>Integers from text\<close>

text \<open>
  \<open>int(s)\<close> on ASCII: white space around (the characters 9 to 13 and the space), an
  optional sign, digits with single underscores between them. (Digits beyond ASCII and
  the interpreter's limit on the length of a literal are not modelled.)
\<close>

definition is_int_space :: "char \<Rightarrow> bool" where
  "is_int_space c = (let n = (of_char c :: nat) in (9 \<le> n \<and> n \<le> 13) \<or> n = 32)"

definition is_digit :: "char \<Rightarrow> bool" where
  "is_digit c = (let n = (of_char c :: nat) in 48 \<le> n \<and> n \<le> 57)"

fun digits_ok :: "string \<Rightarrow> bool" where
  "digits_ok [] = False"
| "digits_ok [c] = is_digit c"
| "digits_ok (c # d # cs) =
     (is_digit c \<and> (if d = CHR ''_'' then digits_ok cs else digits_ok (d # cs)))"

definition digits_value :: "string \<Rightarrow> nat" where
  "digits_value ds =
     foldl (\<lambda>acc c. if c = CHR ''_'' then acc else 10 * acc + (of_char c - 48)) 0 ds"

definition py_int :: "string \<Rightarrow> pyexc + int" where
  "py_int s =
     (let t = rev (dropWhile is_int_space (rev (dropWhile is_int_space s)));
          neg = (t \<noteq> [] \<and> hd t = CHR ''-'');
          ds = (if t \<noteq> [] \<and> (hd t = CHR ''-'' \<or> hd t = CHR ''+'') then tl t else t)
      in if digits_ok ds
         then Inr (if neg then - int (digits_value ds) else int (digits_value ds))
         else Inl (Exc ''ValueError'' (''invalid literal for int() with base 10: '' @ repr_str s)))"

subsection \<open>parse_command\<close>

text \<open>\<open>if len(parts) > i: args[k] = parts[i]\<close>.\<close>

definition opt_arg :: "string list \<Rightarrow> nat \<Rightarrow> string \<Rightarrow> (string \<times> json) list \<Rightarrow> (string \<times> json) list" where
  "opt_arg parts i k args = (if length parts > i then dict_set args k (JStr (parts ! i)) else args)"

text \<open>
  The result of \<open>parse_command\<close> is a pair of optional values: \<open>(None, None)\<close> is the
  "no command" signal.
\<close>

type_synonym command = "string option \<times> (string \<times> json) list option"

definition no_command :: command where
  "no_command = (None, None)"

text \<open>The body of \<open>parse_command\<close> from \<open>if not parts\<close> on, as a function of the tokens.\<close>

definition parse_parts :: "string list \<Rightarrow> pyexc + command" where
  "parse_parts parts =
     (if parts = [] then Inr no_command
      else
        let cmd = py_lower (parts ! 0); n = length parts in
        if cmd = ''list_repositories'' then
          (if n < 2 then Inr no_command
           else Inr (Some ''list_repositories'', Some [(''username'', JStr (parts ! 1))]))
        else if cmd = ''get_repo_details'' then
          (if n < 2 then Inr no_command
           else Inr (Some ''get_repo_details'', Some [(''repo'', JStr (parts ! 1))]))
        else if cmd = ''search_repositories'' then
          (if n < 2 then Inr no_command
           else Inr (Some ''search_repositories'',
                  Some (opt_arg parts 3 ''order'' (opt_arg parts 2 ''sort''
                          [(''query'', JStr (parts ! 1))]))))
        else if cmd = ''create_repository'' then
          (if n < 2 then Inr no_command
           else Inr (Some ''create_repository'',
                  Some (let args = opt_arg parts 2 ''description'' [(''name'', JStr (parts ! 1))]
                        in if n > 3
                           then dict_set args ''private''
                                  (JBool (py_lower (parts ! 3) \<in> set [''true'', ''1'', ''yes'']))
                           else args)))
        else if cmd = ''fork_repository'' then
          (if n < 2 then Inr no_command
           else Inr (Some ''fork_repository'', Some [(''repo'', JStr (parts ! 1))]))
        else if cmd = ''list_issues'' then
          (if n < 2 then Inr no_command
           else Inr (Some ''list_issues'',
                  Some (opt_arg parts 3 ''labels'' (opt_arg parts 2 ''state''
                          [(''repo'', JStr (parts ! 1))]))))
        else if cmd = ''create_issue'' then
          (if n < 3 then Inr no_command
           else Inr (Some ''create_issue'',
                  Some (opt_arg parts 3 ''body''
                          [(''repo'', JStr (parts ! 1)), (''title'', JStr (parts ! 2))])))
        else if cmd = ''update_issue'' then
          (if n < 3 then Inr no_command
           else exc_bind (py_int (parts ! 2)) (\<lambda>issue_number.
                  Inr (Some ''update_issue'',
                    Some (opt_arg parts 5 ''state'' (opt_arg parts 4 ''body'' (opt_arg parts 3 ''title''
                            [(''repo'', JStr (parts ! 1)), (''issue_number'', JInt issue_number)]))))))
        else if cmd = ''list_pull_requests'' then
          (if n < 2 then Inr no_command
           else Inr (Some ''list_pull_requests'',
                  Some (opt_arg parts 2 ''state'' [(''repo'', JStr (parts ! 1))])))
        else if cmd = ''create_pull_request'' then
          (if n < 5 then Inr no_command
           else Inr (Some ''create_pull_request'',
                  Some (opt_arg parts 5 ''body''
                          [(''repo'', JStr (parts ! 1)), (''title'', JStr (parts ! 2)),
                           (''head'', JStr (parts ! 3)), (''base'', JStr (parts ! 4))])))
        else if cmd = ''get_file_contents'' then
          (if n < 3 then Inr no_command
           else Inr (Some ''get_file_contents'',
                  Some (opt_arg parts 3 ''branch''
                          [(''repo'', JStr (parts ! 1)), (''path'', JStr (parts ! 2))])))
        else if cmd = ''create_or_update_file'' then
          (if n < 6 then Inr no_command
           else Inr (Some ''create_or_update_file'',
                  Some (opt_arg parts 6 ''sha''
                          [(''repo'', JStr (parts ! 1)), (''path'', JStr (parts ! 2)),
                           (''content'', JStr (parts ! 3)), (''message'', JStr (parts ! 4)),
                           (''branch'', JStr (parts ! 5))])))
        else if cmd = ''list_branches'' then
          (if n < 2 then Inr no_command
           else Inr (Some ''list_branches'', Some [(''repo'', JStr (parts ! 1))]))
        else if cmd = ''create_branch'' then
          (if n < 3 then Inr no_command
           else Inr (Some ''create_branch'',
                  Some (opt_arg parts 3 ''from_branch''
                          [(''repo'', JStr (parts ! 1)), (''branch'', JStr (parts ! 2))])))
        else if cmd = ''list_commits'' then
          (if n < 2 then Inr no_command
           else Inr (Some ''list_commits'',
                  Some (opt_arg parts 2 ''branch'' [(''repo'', JStr (parts ! 1))])))
        else if cmd = ''search_code'' then
          (if n < 2 then Inr no_command
           else Inr (Some ''search_code'', Some [(''query'', JStr (parts ! 1))]))
        else if cmd = ''list_releases'' then
          (if n < 2 then Inr no_command
           else Inr (Some ''list_releases'', Some [(''repo'', JStr (parts ! 1))]))
        else if cmd = ''get_user_info'' then
          (if n < 2 then Inr no_command
           else Inr (Some ''get_user_info'', Some [(''username'', JStr (parts ! 1))]))
        else Inr no_command)"

definition parse_command :: "string \<Rightarrow> pyexc + command" where
  "parse_command query = parse_parts (command_tokens query)"

text \<open>
  The command words \<open>parse_command\<close> recognises, each with the number of tokens its
  branch asks for (the bound of its \<open>len(parts) < k\<close> guard).
\<close>

definition minimum_tokens :: "(string \<times> nat) list" where
  "minimum_tokens =
     [(''list_repositories'', 2), (''get_repo_details'', 2), (''search_repositories'', 2),
      (''create_repository'', 2), (''fork_repository'', 2), (''list_issues'', 2),
      (''create_issue'', 3), (''update_issue'', 3), (''list_pull_requests'', 2),
      (''create_pull_request'', 5), (''get_file_contents'', 3), (''create_or_update_file'', 6),
      (''list_branches'', 2), (''create_branch'', 3), (''list_commits'', 2),
      (''search_code'', 2), (''list_releases'', 2), (''get_user_info'', 2)]"

subsection \<open>run_github_agent\<close>

text \<open>
  The session with the tool host is outside the repository: it is a parameter, a function
  from the request (tool name and arguments) to what the client sees. Either entering the
  session raises (caught by the outer \<open>except\<close>), or the handshake or the request raises
  (caught by the inner one), or a result comes back. A result has no \<open>root\<close>, or a root
  with a \<open>content\<close> list, or a root with an \<open>error\<close> and no content, or a root with
  neither. Closing the session is taken not to raise.
\<close>

datatype item =
    DictItem "(string \<times> json) list"
  | TextItem json
  | OtherItem string

datatype reply = NoRoot | RootContent "item list" | RootError json | RootBare

datatype session_outcome = ServerFailed string | ToolFailed string | Reply reply

text \<open>
  The text of a content item: the \<open>text\<close> entry of a dict, the \<open>text\<close> attribute of an
  object that has one, \<open>str(item)\<close> otherwise.
\<close>

definition item_text :: "item \<Rightarrow> json" where
  "item_text it =
     (case it of
        DictItem m \<Rightarrow> (case map_of m ''text'' of Some v \<Rightarrow> v | None \<Rightarrow> JStr (py_str (JObj m)))
      | TextItem v \<Rightarrow> v
      | OtherItem s \<Rightarrow> JStr s)"


text \<open>
  The loop over the content: \<open>Inl\<close> is the early return with the error text, \<open>Inr\<close> the
  collected results.
\<close>

fun extract_results :: "item list \<Rightarrow> string list \<Rightarrow> string + string list" where
  "extract_results [] results = Inr results"
| "extract_results (it # content) results =
     (case item_text it of
        JStr text \<Rightarrow>
          if text \<noteq> [] then
            (if contains cross text then Inl (replace_str (cross @ '' '') [] text)
             else extract_results content (results @ [text]))
          else extract_results content results
      | _ \<Rightarrow> extract_results content results)"

text \<open>The lines of \<open>run_github_agent\<close> under \<open># Process response\<close>.\<close>

definition process_response :: "reply \<Rightarrow> (string \<times> json) list" where
  "process_response r =
     (case r of
        NoRoot \<Rightarrow> [(''error'', JStr ''Invalid response format: missing root'')]
      | RootError e \<Rightarrow> [(''error'', e)]
      | RootBare \<Rightarrow> [(''error'', JStr ''Invalid response format: missing content'')]
      | RootContent content \<Rightarrow>
          if content = [] then [(''error'', JStr ''No results received from server'')]
          else (case extract_results content [] of
                  Inl err \<Rightarrow> [(''error'', JStr err)]
                | Inr results \<Rightarrow>
                    if results = [] then [(''error'', JStr ''No data returned'')]
                    else if length results = 1
                    then [(''success'', JBool True), (''data'', JStr (results ! 0))]
                    else [(''success'', JBool True), (''data'', JList (map JStr results)),
                          (''count'', JInt (int (length results)))]))"

definition run_github_agent ::
  "(string \<Rightarrow> (string \<times> json) list \<Rightarrow> session_outcome) \<Rightarrow> string \<Rightarrow> pyexc + (string \<times> json) list" where
  "run_github_agent session query =
     (if query = [] \<or> py_strip query = [] then Inr [(''error'', JStr ''Empty query'')]
      else
        exc_bind (parse_command query) (\<lambda>(tool_name, arguments).
          if falsy_opt tool_name \<or> arguments = None \<or> arguments = Some []
          then Inr [(''error'', JStr (''Invalid command format: '' @ query)),
                    (''help'', JStr ''Use format: <command> <args>. Example: list_repositories octocat'')]
          else
            (case (tool_name, arguments) of
               (Some name, Some args) \<Rightarrow>
                 (case session name args of
                    ServerFailed e \<Rightarrow> Inr [(''error'', JStr (''Server communication failed: '' @ e))]
                  | ToolFailed e \<Rightarrow> Inr [(''error'', JStr (''Tool execution failed: '' @ e))]
                  | Reply r \<Rightarrow> Inr (process_response r))
             | _ \<Rightarrow> Inr [(''error'', JStr (''Invalid command format: '' @ query))])))"

text \<open>The two shapes of a well-formed answer of \<open>run_github_agent\<close>.\<close>

definition is_error_result :: "(string \<times> json) list \<Rightarrow> bool" where
  "is_error_result d = (map_of d ''error'' \<noteq> None)"

definition is_data_result :: "(string \<times> json) list \<Rightarrow> bool" where
  "is_data_result d = (map_of d ''success'' = Some (JBool True) \<and> map_of d ''data'' \<noteq> None)"

section \<open>Vocabulary of the properties\<close>

text \<open>An entry of an issue listing that carries the pull-request back-reference.\<close>

definition has_pull_request :: "json \<Rightarrow> bool" where
  "has_pull_request issue =
     (case issue of JObj d \<Rightarrow> map_of d ''pull_request'' \<noteq> None | _ \<Rightarrow> False)"

text \<open>
  \<open>yields req out oc\<close>: if the handler outcome \<open>oc\<close> issued the one call \<open>req\<close>, it
  returned the segments \<open>out\<close>.
\<close>

definition yields :: "request \<Rightarrow> content list \<Rightarrow> outcome \<Rightarrow> bool" where
  "yields req out oc = (snd oc = [req] \<longrightarrow> fst oc = Inr out)"

text \<open>
  Example environments: a remote side that answers every request with one status and one
  JSON body, and a configuration around it. (The base64 parameters are stand-ins; no
  example reaches them.)
\<close>

definition answer_all :: "int \<Rightarrow> json \<Rightarrow> request list \<Rightarrow> request \<Rightarrow> pyexc + response" where
  "answer_all code payload history req = Inr \<lparr>status_code = code, resp_json = Inr payload\<rparr>"

definition example_env :: "string option \<Rightarrow> (request list \<Rightarrow> request \<Rightarrow> pyexc + response) \<Rightarrow> env" where
  "example_env token net =
     \<lparr>GITHUB_TOKEN = token, network = net, b64encode = (\<lambda>s. s),
      b64decode_utf8 = (\<lambda>v. Inr [])\<rparr>"

definition plain_issue :: json where
  "plain_issue =
     JObj [(''number'', JInt 1), (''title'', JStr ''Bug''), (''state'', JStr ''open''),
           (''html_url'', JStr ''https://github.com/octocat/hello/issues/1''),
           (''labels'', JList [JObj [(''name'', JStr ''bug'')]])]"

definition pull_request_entry :: json where
  "pull_request_entry =
     JObj [(''number'', JInt 2), (''title'', JStr ''Patch''), (''state'', JStr ''open''),
           (''html_url'', JStr ''https://github.com/octocat/hello/pull/2''),
           (''pull_request'', JObj [(''url'', JStr ''https://api.github.com/repos/octocat/hello/pulls/2'')])]"

section \<open>Properties\<close>

subsection \<open>Splitting\<close>

lemma length_split_on: "length (split_on c s) = Suc (count_list s c)"
  by (induction s) (auto split: list.splits)

lemma split_on_no_sep:
  "c \<notin> set s \<Longrightarrow> split_on c s = [s]"
  by (induction s) auto

lemma split_on_append:
  "c \<notin> set a \<Longrightarrow> split_on c (a @ c # b) = a # split_on c b"
  by (induction a) auto

lemma one_sep_decomp:
  assumes "count_list s c = 1"
  shows "s = takeWhile (\<lambda>x. x \<noteq> c) s @ c # tl (dropWhile (\<lambda>x. x \<noteq> c) s)
         \<and> c \<notin> set (takeWhile (\<lambda>x. x \<noteq> c) s)
         \<and> c \<notin> set (tl (dropWhile (\<lambda>x. x \<noteq> c) s))"
proof -
  let ?a = "takeWhile (\<lambda>x. x \<noteq> c) s" and ?r = "dropWhile (\<lambda>x. x \<noteq> c) s"
  have "c \<in> set s" using assms by (metis count_list_0_iff zero_neq_one)
  then have "?r \<noteq> []" by (auto simp: dropWhile_eq_Nil_conv)
  moreover from this have "hd ?r = c" using hd_dropWhile [of "\<lambda>x. x \<noteq> c" s] by simp
  ultimately have r: "?r = c # tl ?r" by (metis list.collapse)
  have s: "s = ?a @ c # tl ?r" using r by (metis takeWhile_dropWhile_id)
  have a: "c \<notin> set ?a" by (auto dest: set_takeWhileD)
  have "count_list s c = count_list ?a c + 1 + count_list (tl ?r) c"
    by (subst s) simp
  then have "count_list (tl ?r) c = 0" using assms by simp
  then have b: "c \<notin> set (tl ?r)" by (simp add: count_list_0_iff)
  show ?thesis using s a b by blast
qed

lemma split_on_one_sep:
  assumes "count_list s c = 1"
  shows "split_on c s = [takeWhile (\<lambda>x. x \<noteq> c) s, tl (dropWhile (\<lambda>x. x \<noteq> c) s)]"
proof -
  let ?a = "takeWhile (\<lambda>x. x \<noteq> c) s" and ?t = "tl (dropWhile (\<lambda>x. x \<noteq> c) s)"
  from one_sep_decomp [OF assms]
  have s: "s = ?a @ c # ?t" and a: "c \<notin> set ?a" and b: "c \<notin> set ?t" by blast+
  have "split_on c s = ?a # split_on c ?t"
    by (subst s) (rule split_on_append [OF a])
  then show ?thesis using split_on_no_sep [OF b] by simp
qed

subsection \<open>The repository-reference splitter\<close>

text \<open>
  C3 (as the claim states it, refuted): a reference with exactly one slash need not give a
  non-empty owner. \<open>/repo\<close> has one slash and its owner is the empty string.
\<close>

theorem parse_repo_string_empty_owner_counterexample:
  "count_list ''/repo'' CHR ''/'' = 1 \<and>
   parse_repo_string (JStr ''/repo'') = Inr (Some [], Some ''repo'')"
  by (simp add: parse_repo_string_def)

text \<open>
  C3 (amended): the empty string gives \<open>(None, None)\<close>. A string with exactly one slash gives
  the text before the slash as owner and the text after it as name, either of which may
  be empty: both are non-empty exactly when the slash is neither the first nor the last
  character. A non-empty string with no slash, or with two or more, gives
  \<open>(None, original_string)\<close>.
\<close>

theorem parse_repo_string_cases:
  "parse_repo_string (JStr []) = Inr (None, None) \<and>
   (count_list s CHR ''/'' = 1 \<longrightarrow>
      parse_repo_string (JStr s) =
        Inr (Some (takeWhile (\<lambda>x. x \<noteq> CHR ''/'') s), Some (tl (dropWhile (\<lambda>x. x \<noteq> CHR ''/'') s))) \<and>
      s = takeWhile (\<lambda>x. x \<noteq> CHR ''/'') s @ ''/'' @ tl (dropWhile (\<lambda>x. x \<noteq> CHR ''/'') s) \<and>
      ((takeWhile (\<lambda>x. x \<noteq> CHR ''/'') s \<noteq> [] \<and> tl (dropWhile (\<lambda>x. x \<noteq> CHR ''/'') s) \<noteq> [])
         = (hd s \<noteq> CHR ''/'' \<and> last s \<noteq> CHR ''/''))) \<and>
   (s \<noteq> [] \<and> count_list s CHR ''/'' \<noteq> 1 \<longrightarrow>
      parse_repo_string (JStr s) = Inr (None, Some s))"
proof (intro conjI impI)
  show "parse_repo_string (JStr []) = Inr (None, None)"
    by (simp add: parse_repo_string_def)
next
  assume one: "count_list s CHR ''/'' = 1"
  let ?a = "takeWhile (\<lambda>x. x \<noteq> CHR ''/'') s" and ?t = "tl (dropWhile (\<lambda>x. x \<noteq> CHR ''/'') s)"
  have ne: "s \<noteq> []" using one by auto
  have sp: "split_on CHR ''/'' s = [?a, ?t]" by (rule split_on_one_sep [OF one])
  show "parse_repo_string (JStr s) = Inr (Some ?a, Some ?t)"
    using ne by (simp add: parse_repo_string_def sp)
  from one_sep_decomp [OF one]
  have s: "s = ?a @ CHR ''/'' # ?t" and b: "CHR ''/'' \<notin> set ?t" by blast+
  show "s = ?a @ ''/'' @ ?t" using s by simp
  have a: "(?a = []) = (hd s = CHR ''/'')"
    using ne by (cases s) auto
  have l: "last s = last (CHR ''/'' # ?t)"
    by (subst s) simp
  have b': "(?t = []) = (last s = CHR ''/'')"
  proof (cases "?t = []")
    case True
    then show ?thesis using l by simp
  next
    case False
    then have "last s = last ?t" using l by simp
    then have "last s \<in> set ?t" using False by simp
    then show ?thesis using b False by auto
  qed
  show "(?a \<noteq> [] \<and> ?t \<noteq> []) = (hd s \<noteq> CHR ''/'' \<and> last s \<noteq> CHR ''/'')"
    using a b' by simp
next
  assume h: "s \<noteq> [] \<and> count_list s CHR ''/'' \<noteq> 1"
  then have "length (split_on CHR ''/'' s) \<noteq> 2"
    by (simp add: length_split_on)
  then show "parse_repo_string (JStr s) = Inr (None, Some s)"
    using h by (simp add: parse_repo_string_def)
qed

theorem parse_repo_string_cases_witness:
  "count_list ''octocat/hello'' CHR ''/'' = 1 \<and>
   parse_repo_string (JStr ''octocat/hello'') = Inr (Some ''octocat'', Some ''hello'') \<and>
   ''a/b/c'' \<noteq> [] \<and> count_list ''a/b/c'' CHR ''/'' \<noteq> 1 \<and>
   parse_repo_string (JStr ''a/b/c'') = Inr (None, Some ''a/b/c'')"
  using parse_repo_string_cases [of "''octocat/hello''"] parse_repo_string_cases [of "''a/b/c''"]
  by simp

subsection \<open>The argument normaliser\<close>



subsection \<open>Evaluation of the client\<close>

lemmas client_eval =
  run_github_agent_def py_strip_def is_space_def parse_command_def command_tokens_def
  shlex_split_def lex_whitespace_def lex_quotes_def lex_escape_def is_quote_state_def exc_bind_def
  parse_parts_def py_int_def is_int_space_def is_digit_def digits_value_def repr_str_def
  repr_char_def opt_arg_def dict_set_def falsy_opt_def no_command_def lower_ascii_def Let_def

subsection \<open>The command parser\<close>



lemma parse_parts_no_command_iff:
  "(parse_parts parts = Inr no_command) =
     (parts = [] \<or> (case map_of minimum_tokens (py_lower (parts ! 0)) of
                       None \<Rightarrow> True | Some n \<Rightarrow> length parts < n))"
  by (simp add: parse_parts_def minimum_tokens_def Let_def no_command_def exc_bind_def split: sum.split)



lemma parse_command_enough_tokens:
  assumes "command_tokens query = word # rest"
    and "map_of minimum_tokens (py_lower word) = Some n"
    and "n \<le> length (word # rest)"
  shows "parse_command query \<noteq> Inr (None, None)"
  using assms parse_parts_no_command_iff [of "word # rest"]
  by (simp add: parse_command_def no_command_def)

text \<open>
  C7: when the first token of the line, lower-cased, is a recognised command word and the
  line has fewer tokens than that command's minimum, \<open>parse_command\<close> returns
  \<open>(None, None)\<close>: it neither raises nor returns an argument mapping.
\<close>

theorem parse_command_too_few_tokens:
  assumes "command_tokens query = word # rest"
    and "map_of minimum_tokens (py_lower word) = Some n"
    and "length (word # rest) < n"
  shows "parse_command query = Inr (None, None)"
  using assms parse_parts_no_command_iff [of "word # rest"]
  by (simp add: parse_command_def no_command_def)

theorem parse_command_too_few_tokens_witness:
  "command_tokens ''create_issue octocat/hello'' = [''create_issue'', ''octocat/hello''] \<and>
   map_of minimum_tokens (py_lower ''create_issue'') = Some 3 \<and>
   length [''create_issue'', ''octocat/hello''] < (3::nat) \<and>
   parse_command ''create_issue octocat/hello'' = Inr (None, None)"
proof -
  have t: "command_tokens ''create_issue octocat/hello'' = [''create_issue'', ''octocat/hello'']"
    by (simp add: command_tokens_def shlex_split_def lex_whitespace_def lex_quotes_def
          lex_escape_def exc_bind_def)
  have m: "map_of minimum_tokens (py_lower ''create_issue'') = Some 3"
    by (simp add: minimum_tokens_def lower_ascii_def)
  have l: "length [''create_issue'', ''octocat/hello''] < (3::nat)" by simp
  from parse_command_too_few_tokens [OF t m l] t m l show ?thesis by simp
qed

subsection \<open>Exceptions out of the client\<close>

text \<open>
  C1 (the code departs from it): \<open>run_github_agent\<close> calls \<open>parse_command\<close> before its
  \<open>try\<close>, so the \<open>ValueError\<close> of \<open>int(parts[2])\<close> on a token that is not a number leaves
  \<open>run_github_agent\<close> as an exception, whatever the session would have answered.
\<close>

theorem run_github_agent_raises_on_bad_issue_number:
  "run_github_agent session ''update_issue octocat/hello abc''
     = Inl (Exc ''ValueError''
         (''invalid literal for int() with base 10: '' @ [CHR 0x27] @ ''abc'' @ [CHR 0x27]))"
  by (simp add: client_eval)

text \<open>
  That is the only way out: whenever \<open>parse_command\<close> does not raise, the answer is a
  dictionary with an \<open>error\<close> entry or one with \<open>success\<close> and \<open>data\<close>.
\<close>

lemma process_response_well_formed: "is_error_result (process_response r) \<or> is_data_result (process_response r)"
  by (auto simp: process_response_def is_error_result_def is_data_result_def split: reply.splits sum.splits)

lemma run_github_agent_returns_unless_parse_raises:
  "case run_github_agent session query of
     Inr d \<Rightarrow> is_error_result d \<or> is_data_result d
   | Inl e \<Rightarrow> query \<noteq> [] \<and> py_strip query \<noteq> [] \<and> parse_command query = Inl e"
  using process_response_well_formed
  by (auto simp: run_github_agent_def exc_bind_def is_error_result_def
      split: sum.splits option.splits session_outcome.splits prod.splits)

subsection \<open>The marker in a reply\<close>






subsection \<open>Evaluation of the handlers\<close>

lemmas server_eval =
  example_env_def answer_all_def with_dict_def with_repo_def pre_def ret_def one_call_def
  dget_def parse_repo_string_def falsy_opt_def mk_request_def get_headers_def api_def
  guard_def failure_text_def exc_bind_def py_get_def py_item_def py_iter_def py_in_def
  py_str_def py_or_def item_str_def item2_str_def get_str_def get_or_str_def render_list_def
  copy_if_set_def dict_set_def no_attribute_def token_required_def invalid_repo_def
  str_of_int_def repr_str_def repr_char_def Let_def

subsection \<open>One call and its answer\<close>

lemma yields_ret: "yields req out (ret x)"
  by (simp add: yields_def ret_def)

lemma yields_pre: "(\<And>x. yields req out (f x)) \<Longrightarrow> yields req out (pre m f)"
  by (cases m) (simp_all add: yields_def pre_def)

lemma yields_with_dict: "(\<And>m. yields req out (f m)) \<Longrightarrow> yields req out (with_dict a f)"
  by (cases a) (simp_all add: yields_def with_dict_def)

lemma yields_with_repo:
  "(\<And>owner repo_name. yields req out (f owner repo_name)) \<Longrightarrow> yields req out (with_repo m f)"
  unfolding with_repo_def
  by (rule yields_pre) (auto simp: yields_ret split: prod.splits option.splits)

lemma yields_if: "yields req out a \<Longrightarrow> yields req out b \<Longrightarrow> yields req out (if c then a else b)"
  by simp

lemma yields_one_call:
  "network env [] req = Inr response \<Longrightarrow> guard (k response) = out
     \<Longrightarrow> yields req out (one_call env r k)"
  by (auto simp: yields_def one_call_def exc_bind_def)

lemmas yields_intros =
  yields_with_dict yields_with_repo yields_pre yields_if yields_ret

subsection \<open>Empty listings\<close>

text \<open>
  C2 (as the claim states it, refuted): a 2xx status other than 200 is a failure for the
  listing handlers (here 201 with an empty list gives an error text), and
  \<open>search_repositories\<close> has no text of its own for an empty result (status 200 with
  zero items gives the count header alone).
\<close>

theorem listing_status_and_search_counterexample:
  "fst (list_repositories (example_env None (answer_all 201 (JList [])))
          ''list_repositories'' (JObj [(''username'', JStr ''octocat'')]))
     = Inr [TextContent (cross @ '' '' @ [CHR 0x27] @ ''list'' @ [CHR 0x27]
                           @ '' object has no attribute '' @ [CHR 0x27] @ ''get'' @ [CHR 0x27])] \<and>
   fst (search_repositories
          (example_env None (answer_all 200 (JObj [(''total_count'', JInt 0), (''items'', JList [])])))
          ''search_repositories'' (JObj [(''query'', JStr ''zzz'')]))
     = Inr [TextContent (''Found 0 repositories (showing 0):'' @ nl @ nl)]"
  by (simp add: list_repositories_def search_repositories_def server_eval)

lemma list_repositories_empty:
  assumes "network env [] req = Inr response" and "status_code response = 200"
    and "resp_json response = Inr (JList [])"
  shows "yields req [TextContent ''No repositories found''] (list_repositories env name arguments)"
  unfolding list_repositories_def Let_def
  by (intro yields_intros yields_one_call [OF assms(1)])
     (simp add: assms exc_bind_def guard_def)

lemma list_issues_empty:
  assumes "network env [] req = Inr response" and "status_code response = 200"
    and "resp_json response = Inr (JList [])"
  shows "yields req [TextContent ''No issues found''] (list_issues env name arguments)"
  unfolding list_issues_def Let_def
  by (intro yields_intros yields_one_call [OF assms(1)])
     (simp add: assms exc_bind_def guard_def)

lemma list_pull_requests_empty:
  assumes "network env [] req = Inr response" and "status_code response = 200"
    and "resp_json response = Inr (JList [])"
  shows "yields req [TextContent ''No pull requests found''] (list_pull_requests env name arguments)"
  unfolding list_pull_requests_def Let_def
  by (intro yields_intros yields_one_call [OF assms(1)])
     (simp add: assms exc_bind_def guard_def)

lemma list_branches_empty:
  assumes "network env [] req = Inr response" and "status_code response = 200"
    and "resp_json response = Inr (JList [])"
  shows "yields req [TextContent ''No branches found''] (list_branches env name arguments)"
  unfolding list_branches_def Let_def
  by (intro yields_intros yields_one_call [OF assms(1)])
     (simp add: assms exc_bind_def guard_def)

lemma list_commits_empty:
  assumes "network env [] req = Inr response" and "status_code response = 200"
    and "resp_json response = Inr (JList [])"
  shows "yields req [TextContent ''No commits found''] (list_commits env name arguments)"
  unfolding list_commits_def Let_def
  by (intro yields_intros yields_one_call [OF assms(1)])
     (simp add: assms exc_bind_def guard_def)

lemma list_releases_empty:
  assumes "network env [] req = Inr response" and "status_code response = 200"
    and "resp_json response = Inr (JList [])"
  shows "yields req [TextContent ''No releases found''] (list_releases env name arguments)"
  unfolding list_releases_def Let_def
  by (intro yields_intros yields_one_call [OF assms(1)])
     (simp add: assms exc_bind_def guard_def)

lemma search_code_empty:
  assumes "network env [] req = Inr response" and "status_code response = 200"
    and "resp_json response = Inr (JObj d)" and "map_of d ''items'' = Some (JList [])"
  shows "yields req [TextContent ''No code results found''] (search_code env name arguments)"
  unfolding search_code_def Let_def
  by (intro yields_intros yields_one_call [OF assms(1)])
     (simp add: assms exc_bind_def guard_def py_get_def)

text \<open>
  \<open>search_repositories\<close> has no branch for an empty result: its text is the count
  header alone.
\<close>

lemma search_repositories_empty:
  assumes "network env [] req = Inr response" and "status_code response = 200"
    and "resp_json response = Inr (JObj d)" and "map_of d ''items'' = Some (JList [])"
  shows "yields req
           [TextContent (''Found '' @ py_str (dget d ''total_count'' (JInt 0))
                           @ '' repositories (showing 0):'' @ nl @ nl)]
           (search_repositories env name arguments)"
  unfolding search_repositories_def Let_def
  by (intro yields_intros yields_one_call [OF assms(1)])
     (simp add: assms exc_bind_def guard_def py_get_def py_iter_def dget_def split: option.splits)

text \<open>
  C2 (amended): for \<open>list_repositories\<close>, \<open>list_issues\<close>, \<open>list_pull_requests\<close>,
  \<open>list_branches\<close>, \<open>list_commits\<close> and \<open>list_releases\<close>, when the handler's call is
  answered with status 200 and an empty list, and for \<open>search_code\<close>, when it is answered
  with status 200 and an object whose \<open>items\<close> is the empty list, the handler returns
  exactly one text segment, which says that nothing was found.
\<close>

theorem empty_listing_says_nothing_found:
  assumes "network env [] req = Inr response" and "status_code response = 200"
  shows "(resp_json response = Inr (JList []) \<longrightarrow>
           (snd (list_repositories env name arguments) = [req] \<longrightarrow>
              fst (list_repositories env name arguments) = Inr [TextContent ''No repositories found'']) \<and>
           (snd (list_issues env name arguments) = [req] \<longrightarrow>
              fst (list_issues env name arguments) = Inr [TextContent ''No issues found'']) \<and>
           (snd (list_pull_requests env name arguments) = [req] \<longrightarrow>
              fst (list_pull_requests env name arguments) = Inr [TextContent ''No pull requests found'']) \<and>
           (snd (list_branches env name arguments) = [req] \<longrightarrow>
              fst (list_branches env name arguments) = Inr [TextContent ''No branches found'']) \<and>
           (snd (list_commits env name arguments) = [req] \<longrightarrow>
              fst (list_commits env name arguments) = Inr [TextContent ''No commits found'']) \<and>
           (snd (list_releases env name arguments) = [req] \<longrightarrow>
              fst (list_releases env name arguments) = Inr [TextContent ''No releases found''])) \<and>
         (\<forall>d. resp_json response = Inr (JObj d) \<and> map_of d ''items'' = Some (JList []) \<longrightarrow>
           (snd (search_code env name arguments) = [req] \<longrightarrow>
              fst (search_code env name arguments) = Inr [TextContent ''No code results found'']))"
  using list_repositories_empty [OF assms] list_issues_empty [OF assms]
    list_pull_requests_empty [OF assms] list_branches_empty [OF assms]
    list_commits_empty [OF assms] list_releases_empty [OF assms] search_code_empty [OF assms]
  unfolding yields_def by blast


theorem empty_listing_says_nothing_found_witness:
  "network (example_env None (answer_all 200 (JList []))) []
       (mk_request ''GET'' (api @ ''/users/octocat/repos'') (example_env None (answer_all 200 (JList [])))
          (Some [(''per_page'', JInt 100)]) None)
     = Inr \<lparr>status_code = 200, resp_json = Inr (JList [])\<rparr> \<and>
   snd (list_repositories (example_env None (answer_all 200 (JList []))) ''list_repositories''
          (JObj [(''username'', JStr ''octocat'')]))
     = [mk_request ''GET'' (api @ ''/users/octocat/repos'') (example_env None (answer_all 200 (JList [])))
          (Some [(''per_page'', JInt 100)]) None] \<and>
   fst (list_repositories (example_env None (answer_all 200 (JList []))) ''list_repositories''
          (JObj [(''username'', JStr ''octocat'')]))
     = Inr [TextContent ''No repositories found'']"
proof -
  let ?env = "example_env None (answer_all 200 (JList []))"
  let ?req = "mk_request ''GET'' (api @ ''/users/octocat/repos'') ?env (Some [(''per_page'', JInt 100)]) None"
  let ?response = "\<lparr>status_code = 200, resp_json = Inr (JList [])\<rparr>"
  have n: "network ?env [] ?req = Inr ?response"
    by (simp add: example_env_def answer_all_def)
  have s: "status_code ?response = 200" by simp
  have j: "resp_json ?response = Inr (JList [])" by simp
  have c: "snd (list_repositories ?env ''list_repositories'' (JObj [(''username'', JStr ''octocat'')]))
             = [?req]"
    by (simp add: list_repositories_def server_eval)
  from empty_listing_says_nothing_found [OF n s, of "''list_repositories''"
         "JObj [(''username'', JStr ''octocat'')]"] j c n
  show ?thesis by simp
qed

subsection \<open>Pull requests in the issue listing\<close>

text \<open>
  C8 (as the claim states it, refuted): under status 201 an entry without the
  pull-request field is not in the output, which is an error text; and under status 200
  an entry without that field that lacks a title makes the whole result an error text.
\<close>

theorem list_issues_status_counterexample:
  "\<not> has_pull_request plain_issue \<and>
   fst (list_issues (example_env None (answer_all 201 (JList [plain_issue])))
          ''list_issues'' (JObj [(''repo'', JStr ''octocat/hello'')]))
     = Inr [TextContent (cross @ '' '' @ [CHR 0x27] @ ''list'' @ [CHR 0x27]
                           @ '' object has no attribute '' @ [CHR 0x27] @ ''get'' @ [CHR 0x27])] \<and>
   \<not> has_pull_request (JObj [(''number'', JInt 7)]) \<and>
   fst (list_issues (example_env None (answer_all 200 (JList [JObj [(''number'', JInt 7)]])))
          ''list_issues'' (JObj [(''repo'', JStr ''octocat/hello'')]))
     = Inr [TextContent (cross @ '' '' @ [CHR 0x27] @ ''title'' @ [CHR 0x27])]"
  by (simp add: list_issues_def has_pull_request_def plain_issue_def issue_block_def py_join_def
        server_eval)

lemma issue_loop_keeps_the_rest:
  assumes "\<forall>i\<in>set issues. \<exists>d. i = JObj d"
    and "list_all2 (\<lambda>i block. issue_block i = Inr block)
           (filter (\<lambda>i. \<not> has_pull_request i) issues) blocks"
  shows "issue_loop issues results = Inr (results @ blocks)"
  using assms
proof (induction issues arbitrary: results blocks)
  case Nil
  then show ?case by simp
next
  case (Cons issue issues)
  from Cons.prems(1) obtain d where d: "issue = JObj d" by auto
  have rest: "\<forall>i\<in>set issues. \<exists>d. i = JObj d" using Cons.prems(1) by simp
  show ?case
  proof (cases "has_pull_request issue")
    case True
    then have "list_all2 (\<lambda>i block. issue_block i = Inr block)
                 (filter (\<lambda>i. \<not> has_pull_request i) issues) blocks"
      using Cons.prems(2) by simp
    from Cons.IH [OF rest this] show ?thesis
      using True d by (simp add: has_pull_request_def py_in_def exc_bind_def)
  next
    case False
    then obtain b bs where b: "blocks = b # bs" "issue_block issue = Inr b"
      and bs: "list_all2 (\<lambda>i block. issue_block i = Inr block)
                 (filter (\<lambda>i. \<not> has_pull_request i) issues) bs"
      using Cons.prems(2) by (auto simp: list_all2_Cons1)
    from Cons.IH [OF rest bs, of "results @ [b]"] show ?thesis
      using False d b by (simp add: has_pull_request_def py_in_def exc_bind_def)
  qed
qed

text \<open>
  C8 (amended): when the call of \<open>list_issues\<close> is answered with status 200 and a list
  of objects, and every entry without the key \<open>pull_request\<close> has the fields the
  formatter reads, the result is one text segment: the blocks of exactly the entries
  without that key, in their order, joined by blank lines (and the text that no issues
  were found when the list is empty). The entries with the key contribute nothing.
\<close>

theorem list_issues_leaves_pull_requests_out:
  assumes "snd (list_issues env name arguments) = [req]"
    and "network env [] req = Inr response"
    and "status_code response = 200"
    and "resp_json response = Inr (JList issues)"
    and "\<forall>i\<in>set issues. \<exists>d. i = JObj d"
    and "list_all2 (\<lambda>i block. issue_block i = Inr block)
           (filter (\<lambda>i. \<not> has_pull_request i) issues) blocks"
  shows "fst (list_issues env name arguments)
           = Inr [TextContent (if issues = [] then ''No issues found''
                               else join_str (nl @ nl) blocks)]"
proof -
  have "yields req [TextContent (if issues = [] then ''No issues found''
                                 else join_str (nl @ nl) blocks)]
          (list_issues env name arguments)"
  proof (cases "issues = []")
    case True
    then show ?thesis
      using list_issues_empty [OF assms(2,3), of name arguments] assms(4) by simp
  next
    case False
    have "yields req [TextContent (join_str (nl @ nl) blocks)] (list_issues env name arguments)"
      unfolding list_issues_def Let_def
      by (intro yields_intros yields_one_call [OF assms(2)])
         (simp add: assms(3,4) False issue_loop_keeps_the_rest [OF assms(5,6)] exc_bind_def
            guard_def py_iter_def)
    then show ?thesis using False by simp
  qed
  then show ?thesis using assms(1) by (simp add: yields_def)
qed

theorem list_issues_leaves_pull_requests_out_witness:
  "issue_block plain_issue
     = Inr (''#1 - Bug'' @ nl @ ''  State: open | Labels: bug'' @ nl
              @ ''  URL: https://github.com/octocat/hello/issues/1'') \<and>
   filter (\<lambda>i. \<not> has_pull_request i) [pull_request_entry, plain_issue] = [plain_issue] \<and>
   fst (list_issues (example_env None (answer_all 200 (JList [pull_request_entry, plain_issue])))
          ''list_issues'' (JObj [(''repo'', JStr ''octocat/hello'')]))
     = Inr [TextContent (''#1 - Bug'' @ nl @ ''  State: open | Labels: bug'' @ nl
                           @ ''  URL: https://github.com/octocat/hello/issues/1'')]"
proof -
  let ?issues = "[pull_request_entry, plain_issue]"
  let ?env = "example_env None (answer_all 200 (JList ?issues))"
  let ?args = "JObj [(''repo'', JStr ''octocat/hello'')]"
  let ?req = "mk_request ''GET'' (api @ ''/repos/octocat/hello/issues'') ?env
                (Some [(''state'', JStr ''open''), (''per_page'', JInt 30)]) None"
  let ?response = "\<lparr>status_code = 200, resp_json = Inr (JList ?issues)\<rparr>"
  let ?block = "''#1 - Bug'' @ nl @ ''  State: open | Labels: bug'' @ nl
                  @ ''  URL: https://github.com/octocat/hello/issues/1''"
  have c: "snd (list_issues ?env ''list_issues'' ?args) = [?req]"
    by (simp add: list_issues_def server_eval)
  have n: "network ?env [] ?req = Inr ?response"
    by (simp add: example_env_def answer_all_def)
  have s: "status_code ?response = 200" by simp
  have j: "resp_json ?response = Inr (JList ?issues)" by simp
  have o: "\<forall>i\<in>set ?issues. \<exists>d. i = JObj d"
    by (simp add: plain_issue_def pull_request_entry_def)
  have b: "issue_block plain_issue = Inr ?block"
    by (simp add: plain_issue_def issue_block_def py_join_def server_eval)
  have f: "filter (\<lambda>i. \<not> has_pull_request i) ?issues = [plain_issue]"
    by (simp add: has_pull_request_def plain_issue_def pull_request_entry_def)
  have l: "list_all2 (\<lambda>i block. issue_block i = Inr block)
             (filter (\<lambda>i. \<not> has_pull_request i) ?issues) [?block]"
    unfolding f by (simp add: b)
  from list_issues_leaves_pull_requests_out [OF c n s j o l] b f
  show ?thesis by simp
qed

subsection \<open>Branch creation\<close>

lemma guard_failure_text:
  "\<exists>msg. guard (failure_text r d) = [TextContent (cross @ '' '' @ msg)]"
  by (auto simp: guard_def failure_text_def exc_bind_def split: sum.splits)

lemma create_branch_shape:
  assumes eq: "create_branch env name arguments = (result, calls)" and ne: "calls \<noteq> []"
  shows "\<exists>owner repo_name branch from_branch.
        (case network env [] (ref_lookup_request env owner repo_name from_branch) of
           Inl e \<Rightarrow> calls = [ref_lookup_request env owner repo_name from_branch]
                    \<and> result = Inr (guard (Inl e))
         | Inr ref_response \<Rightarrow>
             if status_code ref_response \<noteq> 200
             then calls = [ref_lookup_request env owner repo_name from_branch]
                  \<and> result = Inr (guard (failure_text ref_response
                                            (str_of_int (status_code ref_response))))
             else (case ref_sha ref_response of
                     Inl e \<Rightarrow> calls = [ref_lookup_request env owner repo_name from_branch]
                              \<and> result = Inr (guard (Inl e))
                   | Inr sha \<Rightarrow>
                       calls = [ref_lookup_request env owner repo_name from_branch,
                                ref_create_request env owner repo_name branch sha]))"
proof -
  obtain m ow rn where a: "arguments = JObj m"
    and t: "\<not> falsy_opt (GITHUB_TOKEN env)"
    and p: "parse_repo_string (dget m ''repo'' JNull) = Inr (Some ow, Some rn)"
    and f: "\<not> falsy_opt (Some ow)" "\<not> falsy_opt (Some rn)"
    and b: "truthy (dget m ''branch'' JNull)"
    using eq ne unfolding create_branch_def ret_def pre_def with_dict_def with_repo_def Let_def
    by (auto split: if_splits json.splits sum.splits option.splits prod.splits)
  show ?thesis
    apply (rule exI [of _ ow], rule exI [of _ rn])
    apply (rule exI [of _ "dget m ''branch'' JNull"])
    apply (rule exI [of _ "dget m ''from_branch'' (JStr ''main'')"])
    using eq a t p f b
    unfolding create_branch_def ret_def pre_def with_dict_def with_repo_def Let_def
    by (auto split: sum.splits)
qed

text \<open>
  C5: \<open>create_branch\<close> issues at most two calls. The first, when there is one, is the
  lookup of the source reference. A second call is issued only after the lookup was
  answered with status 200 and a body that holds a commit hash, and it is the creation of
  the reference with exactly that hash, in the same repository. When the lookup is
  answered with another status, it stays the only call and the result is an error text.
\<close>

theorem create_branch_two_calls:
  assumes "create_branch env name arguments = (result, calls)"
  shows "length calls \<le> 2 \<and>
    (calls \<noteq> [] \<longrightarrow>
       (\<exists>owner repo_name branch from_branch.
          hd calls = ref_lookup_request env owner repo_name from_branch \<and>
          (\<forall>second. calls = [hd calls, second] \<longrightarrow>
             (\<exists>ref_response sha.
                network env [] (hd calls) = Inr ref_response \<and>
                status_code ref_response = 200 \<and>
                ref_sha ref_response = Inr sha \<and>
                second = ref_create_request env owner repo_name branch sha)))) \<and>
    (\<forall>ref_response.
       calls \<noteq> [] \<and> network env [] (hd calls) = Inr ref_response
         \<and> status_code ref_response \<noteq> 200 \<longrightarrow>
       length calls = 1 \<and> (\<exists>msg. result = Inr [TextContent (cross @ '' '' @ msg)]))"
proof (cases "calls = []")
  case True
  then show ?thesis by simp
next
  case False
  from create_branch_shape [OF assms False]
  obtain owner repo_name branch from_branch where
    sh: "(case network env [] (ref_lookup_request env owner repo_name from_branch) of
           Inl e \<Rightarrow> calls = [ref_lookup_request env owner repo_name from_branch]
                    \<and> result = Inr (guard (Inl e))
         | Inr ref_response \<Rightarrow>
             if status_code ref_response \<noteq> 200
             then calls = [ref_lookup_request env owner repo_name from_branch]
                  \<and> result = Inr (guard (failure_text ref_response
                                            (str_of_int (status_code ref_response))))
             else (case ref_sha ref_response of
                     Inl e \<Rightarrow> calls = [ref_lookup_request env owner repo_name from_branch]
                              \<and> result = Inr (guard (Inl e))
                   | Inr sha \<Rightarrow>
                       calls = [ref_lookup_request env owner repo_name from_branch,
                                ref_create_request env owner repo_name branch sha]))"
    by blast
  let ?lookup = "ref_lookup_request env owner repo_name from_branch"
  have hd: "hd calls = ?lookup"
    using sh by (auto split: sum.splits if_splits)
  have len: "length calls \<le> 2"
    using sh by (auto split: sum.splits if_splits)
  have second: "\<forall>second. calls = [hd calls, second] \<longrightarrow>
             (\<exists>ref_response sha.
                network env [] (hd calls) = Inr ref_response \<and>
                status_code ref_response = 200 \<and>
                ref_sha ref_response = Inr sha \<and>
                second = ref_create_request env owner repo_name branch sha)"
    using sh unfolding hd by (auto split: sum.splits if_splits)
  have fail: "\<forall>ref_response.
       calls \<noteq> [] \<and> network env [] (hd calls) = Inr ref_response
         \<and> status_code ref_response \<noteq> 200 \<longrightarrow>
       length calls = 1 \<and> (\<exists>msg. result = Inr [TextContent (cross @ '' '' @ msg)])"
    using sh guard_failure_text unfolding hd by (auto split: sum.splits if_splits)
  show ?thesis
    using len hd second fail by blast
qed


theorem create_branch_two_calls_witness:
  "create_branch
       (example_env (Some ''secret'') (answer_all 200 (JObj [(''object'', JObj [(''sha'', JStr ''abc123'')])])))
       ''create_branch'' (JObj [(''repo'', JStr ''octocat/hello''), (''branch'', JStr ''dev'')])
     = (Inr [TextContent (check_mark @ '' Branch '' @ [CHR 0x27] @ ''dev'' @ [CHR 0x27]
                            @ '' created from '' @ [CHR 0x27] @ ''main'' @ [CHR 0x27])],
        [ref_lookup_request
           (example_env (Some ''secret'') (answer_all 200 (JObj [(''object'', JObj [(''sha'', JStr ''abc123'')])])))
           ''octocat'' ''hello'' (JStr ''main''),
         ref_create_request
           (example_env (Some ''secret'') (answer_all 200 (JObj [(''object'', JObj [(''sha'', JStr ''abc123'')])])))
           ''octocat'' ''hello'' (JStr ''dev'') (JStr ''abc123'')]) \<and>
   create_branch
       (example_env (Some ''secret'') (answer_all 404 (JObj [(''message'', JStr ''Not Found'')])))
       ''create_branch'' (JObj [(''repo'', JStr ''octocat/hello''), (''branch'', JStr ''dev'')])
     = (Inr [TextContent (cross @ '' Not Found'')],
        [ref_lookup_request
           (example_env (Some ''secret'') (answer_all 404 (JObj [(''message'', JStr ''Not Found'')])))
           ''octocat'' ''hello'' (JStr ''main'')])"
proof -
  let ?ok = "example_env (Some ''secret'') (answer_all 200 (JObj [(''object'', JObj [(''sha'', JStr ''abc123'')])]))"
  let ?ko = "example_env (Some ''secret'') (answer_all 404 (JObj [(''message'', JStr ''Not Found'')]))"
  let ?args = "JObj [(''repo'', JStr ''octocat/hello''), (''branch'', JStr ''dev'')]"
  have a: "create_branch ?ok ''create_branch'' ?args
     = (Inr [TextContent (check_mark @ '' Branch '' @ [CHR 0x27] @ ''dev'' @ [CHR 0x27]
                            @ '' created from '' @ [CHR 0x27] @ ''main'' @ [CHR 0x27])],
        [ref_lookup_request ?ok ''octocat'' ''hello'' (JStr ''main''),
         ref_create_request ?ok ''octocat'' ''hello'' (JStr ''dev'') (JStr ''abc123'')])"
    by (simp add: create_branch_def ref_lookup_request_def ref_create_request_def ref_sha_def
          server_eval)
  have b: "create_branch ?ko ''create_branch'' ?args
     = (Inr [TextContent (cross @ '' Not Found'')],
        [ref_lookup_request ?ko ''octocat'' ''hello'' (JStr ''main'')])"
    by (simp add: create_branch_def ref_lookup_request_def ref_create_request_def ref_sha_def
          server_eval)
  from create_branch_two_calls [OF a] create_branch_two_calls [OF b] a b
  show ?thesis by simp
qed

subsection \<open>Dispatch of an unknown tool\<close>

text \<open>
  C6: a tool name that is not in the registry gives, whatever the arguments, exactly one
  text segment, the marker followed by \<open>Unknown tool:\<close> and the name, with no call made
  and nothing raised. This holds of the dispatcher of \<open>mcp_server.py\<close> and of the one
  of the first server, whose registry is its two names.
\<close>

theorem unknown_tool_is_a_value:
  "(name \<notin> set (map fst handlers) \<longrightarrow>
      handle_tool_call env name arguments
        = (Inr [TextContent (cross @ '' Unknown tool: '' @ name)], [])) \<and>
   (name \<notin> {''list_repositories'', ''get_repo_details''} \<longrightarrow>
      handle_tool_call1 env name arguments
        = (Inr [TextContent (cross @ '' Unknown tool: '' @ name)], []))"
  by (simp add: handle_tool_call_def handle_tool_call1_def Let_def map_of_eq_None_iff [THEN iffD2])

theorem unknown_tool_is_a_value_witness:
  "''delete_repository'' \<notin> set (map fst handlers) \<and>
   handle_tool_call (example_env None (answer_all 200 JNull)) ''delete_repository''
       (Some [(''repo'', JStr ''octocat/hello'')])
     = (Inr [TextContent (cross @ '' Unknown tool: delete_repository'')], []) \<and>
   ''delete_repository'' \<notin> {''list_repositories'', ''get_repo_details''} \<and>
   handle_tool_call1 (example_env None (answer_all 200 JNull)) ''delete_repository'' None
     = (Inr [TextContent (cross @ '' Unknown tool: delete_repository'')], [])"
proof -
  have a: "''delete_repository'' \<notin> set (map fst handlers)"
    by (simp add: handlers_def)
  have b: "''delete_repository'' \<notin> {''list_repositories'', ''get_repo_details''}"
    by simp
  from unknown_tool_is_a_value [of "''delete_repository''" "example_env None (answer_all 200 JNull)"
         "Some [(''repo'', JStr ''octocat/hello'')]"]
       unknown_tool_is_a_value [of "''delete_repository''" "example_env None (answer_all 200 JNull)" None]
       a b
  show ?thesis by simp
qed

subsection \<open>Mutating tools without a token\<close>

text \<open>
  C4: with no token configured (the variable unset, or set to the empty string), each of
  the seven mutating handlers returns the fixed text that a token is required and has
  made no call, whatever the arguments are; so does the dispatcher for their names.
\<close>

theorem mutating_tools_need_token:
  assumes "GITHUB_TOKEN env = None \<or> GITHUB_TOKEN env = Some []"
  shows "create_repository env name arguments
           = (Inr [TextContent (cross @ '' GitHub token required for this operation'')], []) \<and>
         fork_repository env name arguments
           = (Inr [TextContent (cross @ '' GitHub token required for this operation'')], []) \<and>
         create_issue env name arguments
           = (Inr [TextContent (cross @ '' GitHub token required for this operation'')], []) \<and>
         update_issue env name arguments
           = (Inr [TextContent (cross @ '' GitHub token required for this operation'')], []) \<and>
         create_pull_request env name arguments
           = (Inr [TextContent (cross @ '' GitHub token required for this operation'')], []) \<and>
         create_or_update_file env name arguments
           = (Inr [TextContent (cross @ '' GitHub token required for this operation'')], []) \<and>
         create_branch env name arguments
           = (Inr [TextContent (cross @ '' GitHub token required for this operation'')], []) \<and>
         (\<forall>tool \<in> set [''create_repository'', ''fork_repository'', ''create_issue'',
                         ''update_issue'', ''create_pull_request'', ''create_or_update_file'',
                         ''create_branch''].
            handle_tool_call env tool wrapped
              = (Inr [TextContent (cross @ '' GitHub token required for this operation'')], []))"
proof -
  have f: "falsy_opt (GITHUB_TOKEN env)" using assms by (simp add: falsy_opt_def)
  show ?thesis
    by (simp add: f create_repository_def fork_repository_def create_issue_def update_issue_def
          create_pull_request_def create_or_update_file_def create_branch_def ret_def
          token_required_def handle_tool_call_def handlers_def Let_def)
qed

theorem mutating_tools_need_token_witness:
  "(GITHUB_TOKEN (example_env None (answer_all 201 JNull)) = None
      \<or> GITHUB_TOKEN (example_env None (answer_all 201 JNull)) = Some []) \<and>
   create_issue (example_env None (answer_all 201 JNull)) ''create_issue''
       (JObj [(''repo'', JStr ''octocat/hello''), (''title'', JStr ''Title'')])
     = (Inr [TextContent (cross @ '' GitHub token required for this operation'')], []) \<and>
   handle_tool_call (example_env None (answer_all 201 JNull)) ''create_branch''
       (Some [(''repo'', JStr ''octocat/hello''), (''branch'', JStr ''dev'')])
     = (Inr [TextContent (cross @ '' GitHub token required for this operation'')], [])"
proof -
  have t: "GITHUB_TOKEN (example_env None (answer_all 201 JNull)) = None
      \<or> GITHUB_TOKEN (example_env None (answer_all 201 JNull)) = Some []"
    by (simp add: example_env_def)
  from mutating_tools_need_token [OF t, of "''create_issue''"
         "JObj [(''repo'', JStr ''octocat/hello''), (''title'', JStr ''Title'')]"
         "Some [(''repo'', JStr ''octocat/hello''), (''branch'', JStr ''dev'')]"] t
  show ?thesis by simp
qed

end
